theory Spec2Isabelle
  imports Main "HOL-Library.Multiset"
begin

text \<open>
  The library provides \<^verbatim>\<open>Result\<close>, a value that is either an \<^verbatim>\<open>Ok\<close> or an \<^verbatim>\<open>Err\<close>, and
  \<^verbatim>\<open>ResultAsync\<close>, a lazy asynchronous computation that resolves to a \<^verbatim>\<open>Result\<close> when it is
  run. This theory embeds the operations of both that the specification makes claims
  about, first the definitions, translated from the TypeScript source, then the
  properties.
\<close>

section \<open>The synchronous Result\<close>

text \<open>
  \<^verbatim>\<open>Result<E, T>\<close> is implemented by the two classes \<^verbatim>\<open>Ok\<close> and \<^verbatim>\<open>Err\<close>, each
  holding one private field \<^verbatim>\<open>__value\<close>. The two classes become the two constructors of
  a datatype, and a method becomes a function whose first argument is the receiver
  \<^verbatim>\<open>this\<close>, with one equation per class. The specification calls the type Outcome and
  the variants Success and Failure.
\<close>

datatype ('e, 'a) result = Err 'e | Ok 'a

fun isErr :: "('e, 'a) result \<Rightarrow> bool" where
  "isErr (Ok v) = False"
| "isErr (Err e) = True"

fun isOk :: "('e, 'a) result \<Rightarrow> bool" where
  "isOk (Ok v) = True"
| "isOk (Err e) = False"

text \<open>
  \<^verbatim>\<open>Ok.map(f) = ok(f(this.__value))\<close>, \<^verbatim>\<open>Err.map(_) = this\<close>.
\<close>

fun Result_map :: "('e, 'a) result \<Rightarrow> ('a \<Rightarrow> 'b) \<Rightarrow> ('e, 'b) result" where
  "Result_map (Ok v) f = Ok (f v)"
| "Result_map (Err e) f = Err e"

text \<open>
  \<^verbatim>\<open>Ok.ap(other) = other.isOk() ? this.map(other.extract()) : other\<close> and
  \<^verbatim>\<open>Err.ap(other) = other.isErr() ? other : this\<close>. The source reads the payload with
  \<^verbatim>\<open>extract()\<close>, of type \<^verbatim>\<open>E | T\<close>, and casts; the typed model reads it by a case
  distinction on \<open>other\<close>, in the order of the source's test.
\<close>

fun Result_ap :: "('e, 'a) result \<Rightarrow> ('e, 'a \<Rightarrow> 'b) result \<Rightarrow> ('e, 'b) result" where
  "Result_ap (Ok v) other = (case other of Ok f \<Rightarrow> Result_map (Ok v) f | Err e2 \<Rightarrow> Err e2)"
| "Result_ap (Err e) other = (case other of Err e2 \<Rightarrow> Err e2 | Ok f \<Rightarrow> Err e)"

text \<open>
  \<^verbatim>\<open>Ok.alt(_) = this\<close>, \<^verbatim>\<open>Err.alt(other) = other\<close>. The argument is a Result that
  has already been computed.
\<close>

fun Result_alt :: "('e, 'a) result \<Rightarrow> ('e, 'a) result \<Rightarrow> ('e, 'a) result" where
  "Result_alt (Ok v) other = Ok v"
| "Result_alt (Err e) other = other"

text \<open>
  The callbacks handed to \<^verbatim>\<open>altLazy\<close>, \<^verbatim>\<open>ifErr\<close> and \<^verbatim>\<open>ifOk\<close> are called for what they
  do, so the model passes the state of the world \<open>'s\<close> through them: a thunk
  \<^verbatim>\<open>() => Result<E, T>\<close> is a function from the state to the Result and the new state, an
  effect \<^verbatim>\<open>(value) => any\<close> takes the payload as well. A method that does not call its
  callback returns the state it was given. The callbacks of the synchronous layer are
  taken to return; one that raises would raise out of the method.

  \<^verbatim>\<open>Ok.altLazy(_) = this\<close>, \<^verbatim>\<open>Err.altLazy(other) = other()\<close>.
\<close>

fun Result_altLazy ::
  "('e, 'a) result \<Rightarrow> ('s \<Rightarrow> ('e, 'a) result \<times> 's) \<Rightarrow> 's \<Rightarrow> ('e, 'a) result \<times> 's" where
  "Result_altLazy (Ok v) other s = (Ok v, s)"
| "Result_altLazy (Err e) other s = other s"

text \<open>
  \<^verbatim>\<open>Ok.ifErr(_) = this\<close>, \<^verbatim>\<open>Err.ifErr(effect) = (effect(this.__value), this)\<close>: the comma
  expression calls the effect, drops what it returns and yields the receiver.
  \<^verbatim>\<open>ifOk\<close> is the mirror image.
\<close>

fun Result_ifErr ::
  "('e, 'a) result \<Rightarrow> ('e \<Rightarrow> 's \<Rightarrow> 'r \<times> 's) \<Rightarrow> 's \<Rightarrow> ('e, 'a) result \<times> 's" where
  "Result_ifErr (Ok v) effect s = (Ok v, s)"
| "Result_ifErr (Err e) effect s = (case effect e s of (r, s') \<Rightarrow> (Err e, s'))"

fun Result_ifOk ::
  "('e, 'a) result \<Rightarrow> ('a \<Rightarrow> 's \<Rightarrow> 'r \<times> 's) \<Rightarrow> 's \<Rightarrow> ('e, 'a) result \<times> 's" where
  "Result_ifOk (Ok v) effect s = (case effect v s of (r, s') \<Rightarrow> (Ok v, s'))"
| "Result_ifOk (Err e) effect s = (Err e, s)"

text \<open>
  The tests count the calls of a callback with \<^verbatim>\<open>jest.fn\<close>. Its model wraps a
  callback so that every call adds one to a counter kept beside the state.
\<close>

fun jest_fn :: "('s \<Rightarrow> 'r \<times> 's) \<Rightarrow> nat \<times> 's \<Rightarrow> 'r \<times> (nat \<times> 's)" where
  "jest_fn f (calls, s) = (case f s of (r, s') \<Rightarrow> (r, (Suc calls, s')))"

text \<open>
  \<^verbatim>\<open>Result.sequence(results)\<close>: the loop returns the first \<^verbatim>\<open>Err\<close> it meets and
  otherwise pushes each \<^verbatim>\<open>Ok\<close> payload onto \<^verbatim>\<open>res\<close>.
\<close>

fun Result_sequence_loop :: "('e, 'a) result list \<Rightarrow> 'a list \<Rightarrow> ('e, 'a list) result" where
  "Result_sequence_loop [] res = Ok res"
| "Result_sequence_loop (e # results) res =
     (case e of Err l \<Rightarrow> Err l | Ok v \<Rightarrow> Result_sequence_loop results (res @ [v]))"

definition Result_sequence :: "('e, 'a) result list \<Rightarrow> ('e, 'a list) result" where
  "Result_sequence results = Result_sequence_loop results []"

text \<open>
  \<^verbatim>\<open>Result.oks(list)\<close> collects the \<^verbatim>\<open>Ok\<close> payloads in order.
\<close>

fun Result_oks :: "('e, 'a) result list \<Rightarrow> 'a list" where
  "Result_oks [] = []"
| "Result_oks (x # list) = (case x of Ok v \<Rightarrow> v # Result_oks list | Err e \<Rightarrow> Result_oks list)"

subsection \<open>Payloads and strict equality\<close>

text \<open>
  \<^verbatim>\<open>equals\<close> compares the two payloads with JavaScript's \<^verbatim>\<open>===\<close>, whose result depends
  on what kind of value a payload is. The values that matter are the primitives and
  objects: an object (an array, a record) is held by reference, so it is modelled by the
  address that identifies it together with its properties. Numbers are the
  integer-valued ones and \<^verbatim>\<open>NaN\<close>.
\<close>

datatype jsval =
    JUndefined
  | JNull
  | JBool bool
  | JNum int
  | JNaN
  | JStr string
  | JObj nat "(string \<times> jsval) list"

text \<open>
  \<^verbatim>\<open>a === b\<close>: two primitives of the same type with the same value are equal, except that
  \<^verbatim>\<open>NaN\<close> equals nothing; two objects are equal when they are the same object.
\<close>

fun strict_eq :: "jsval \<Rightarrow> jsval \<Rightarrow> bool" where
  "strict_eq JUndefined JUndefined = True"
| "strict_eq JNull JNull = True"
| "strict_eq (JBool a) (JBool b) = (a = b)"
| "strict_eq (JNum a) (JNum b) = (a = b)"
| "strict_eq (JStr a) (JStr b) = (a = b)"
| "strict_eq (JObj a fs) (JObj b gs) = (a = b)"
| "strict_eq v w = False"

text \<open>
  Structural equality, in the words of the specification: two payloads are structurally
  equal when they have the same shape and the same contents, whichever objects hold
  them. This definition is the specification's; the source does not contain it.
\<close>

fun structural_eq :: "jsval \<Rightarrow> jsval \<Rightarrow> bool"
  and structural_eq_fields :: "(string \<times> jsval) list \<Rightarrow> (string \<times> jsval) list \<Rightarrow> bool" where
  "structural_eq JUndefined JUndefined = True"
| "structural_eq JNull JNull = True"
| "structural_eq (JBool a) (JBool b) = (a = b)"
| "structural_eq (JNum a) (JNum b) = (a = b)"
| "structural_eq JNaN JNaN = True"
| "structural_eq (JStr a) (JStr b) = (a = b)"
| "structural_eq (JObj a fs) (JObj b gs) = structural_eq_fields fs gs"
| "structural_eq v w = False"
| "structural_eq_fields [] [] = True"
| "structural_eq_fields ((k, v) # fs) ((l, w) # gs) =
     (k = l \<and> structural_eq v w \<and> structural_eq_fields fs gs)"
| "structural_eq_fields fs gs = False"

text \<open>
  A primitive other than \<^verbatim>\<open>NaN\<close>.
\<close>

fun primitive :: "jsval \<Rightarrow> bool" where
  "primitive JNaN = False"
| "primitive (JObj a fs) = False"
| "primitive v = True"

text \<open>
  \<^verbatim>\<open>extract()\<close> returns the payload of either variant, of type \<^verbatim>\<open>E | T\<close>; it has a type
  in the model when both payloads have the same one.
\<close>

fun Result_extract :: "('a, 'a) result \<Rightarrow> 'a" where
  "Result_extract (Ok v) = v"
| "Result_extract (Err e) = e"

text \<open>
  \<^verbatim>\<open>Ok.equals(other) = other.isOk() ? this.__value === other.extract() : false\<close> and
  \<^verbatim>\<open>Err.equals(other) = other.isErr() ? other.extract() === this.__value : false\<close>.
\<close>

fun Result_equals :: "(jsval, jsval) result \<Rightarrow> (jsval, jsval) result \<Rightarrow> bool" where
  "Result_equals (Ok v) other = (if isOk other then strict_eq v (Result_extract other) else False)"
| "Result_equals (Err e) other = (if isErr other then strict_eq (Result_extract other) e else False)"

section \<open>Promises\<close>

text \<open>
  A promise settles in one of two ways: it is fulfilled with a value or rejected with a
  reason. What an asynchronous computation does to the world before it settles is made
  explicit by passing the state \<open>'s\<close>: a value of type \<open>('s, 'x, 'a) promise\<close> takes the
  state in which the computation starts and gives the way it settles together with the
  state it leaves. A function that builds such a value does nothing yet; the computation
  takes place where the value is applied to a state.

  A value of this type describes a computation that runs with nothing else going on
  between its start and its settlement. That is how the computations of the sequential
  combinators run, which await one thing at a time. Computations that are under way at
  the same time are described step by step, in the section on promises in time. A
  computation is taken to settle: one that stays pending for ever has no counterpart.
\<close>

datatype ('x, 'a) settled = Fulfilled 'a | Rejected 'x

type_synonym ('s, 'x, 'a) promise = "'s \<Rightarrow> ('x, 'a) settled \<times> 's"

text \<open>
  \<^verbatim>\<open>Promise.resolve(v)\<close>, and \<^verbatim>\<open>return v\<close> in an \<^verbatim>\<open>async\<close> function, for a value that
  is not a thenable; for a value that may be one, see \<open>Promise_resolve\<close> below.
\<close>

definition resolve :: "'a \<Rightarrow> ('s, 'x, 'a) promise" where
  "resolve v s = (Fulfilled v, s)"

text \<open>
  \<^verbatim>\<open>Promise.reject(x)\<close>, and \<^verbatim>\<open>throw x\<close>. A \<^verbatim>\<open>throw\<close> in an \<^verbatim>\<open>async\<close> function rejects the
  promise the function returns. A \<^verbatim>\<open>throw\<close> in a producer that is an ordinary function
  raises out of the call \<^verbatim>\<open>this.runPromise(helpers)\<close> instead; every such call in the
  source stands where a rejection would have the same effect (inside the \<^verbatim>\<open>try\<close> block of
  \<^verbatim>\<open>run\<close>, or inside another producer), so the model does not tell the two apart.
\<close>

definition reject :: "'x \<Rightarrow> ('s, 'x, 'a) promise" where
  "reject x s = (Rejected x, s)"

text \<open>
  \<^verbatim>\<open>p.then(onfulfilled, onrejected)\<close>: when \<open>p\<close> has settled, the matching callback
  runs in the state \<open>p\<close> left.
\<close>

definition promise_then ::
  "('s, 'x, 'a) promise \<Rightarrow> ('a \<Rightarrow> ('s, 'y, 'b) promise) \<Rightarrow> ('x \<Rightarrow> ('s, 'y, 'b) promise) \<Rightarrow>
   ('s, 'y, 'b) promise" where
  "promise_then p onfulfilled onrejected s =
     (case p s of (Fulfilled v, s') \<Rightarrow> onfulfilled v s' | (Rejected x, s') \<Rightarrow> onrejected x s')"

text \<open>
  \<^verbatim>\<open>const v = await p; rest\<close> in an \<^verbatim>\<open>async\<close> function, and \<^verbatim>\<open>p.then(rest)\<close>: the rest runs
  with the value when \<open>p\<close> is fulfilled, and a rejection of \<open>p\<close> becomes the rejection
  of the whole.
\<close>

definition await :: "('s, 'x, 'a) promise \<Rightarrow> ('a \<Rightarrow> ('s, 'x, 'b) promise) \<Rightarrow> ('s, 'x, 'b) promise" where
  "await p rest = promise_then p rest reject"

text \<open>
  \<^verbatim>\<open>try { body } catch (e) { handler }\<close> around awaited code.
\<close>

definition try_catch ::
  "('s, 'x, 'a) promise \<Rightarrow> ('x \<Rightarrow> ('s, 'y, 'a) promise) \<Rightarrow> ('s, 'y, 'a) promise" where
  "try_catch body handler = promise_then body resolve handler"

text \<open>
  \<^verbatim>\<open>p.finally(onFinally)\<close>: when \<open>p\<close> has settled, either way, \<^verbatim>\<open>onFinally()\<close> is called.
  If the call raises, or returns a promise that is rejected, the result is rejected with
  that reason; otherwise what the call returns is dropped and the result settles as \<open>p\<close>
  did. The callback is a computation of its own: \<open>Rejected x\<close> stands for both ways of
  failing.
\<close>

definition promise_finally ::
  "('s, 'x, 'a) promise \<Rightarrow> ('s, 'x, 'r) promise \<Rightarrow> ('s, 'x, 'a) promise" where
  "promise_finally p onFinally s =
     (case p s of (settlement, s') \<Rightarrow>
        (case onFinally s' of
           (Fulfilled r, s'') \<Rightarrow> (settlement, s'')
         | (Rejected x, s'') \<Rightarrow> (Rejected x, s'')))"

subsection \<open>Values that may be thenables\<close>

text \<open>
  \<^verbatim>\<open>Promise.resolve(v)\<close>, \<^verbatim>\<open>return v\<close> in an \<^verbatim>\<open>async\<close> function and \<^verbatim>\<open>await v\<close> look at the
  value they are given: a value with a \<^verbatim>\<open>then\<close> method, a thenable, is not passed on but
  adopted, which means that the promise settles as the thenable does, and a thenable that
  is fulfilled with another thenable is adopted in turn. The reason of a rejection is
  never looked at. So a promise is never fulfilled with a thenable, and the type variable
  of the values a promise is fulfilled with stands for values that are not thenables:
  for them \<open>resolve\<close> above is \<^verbatim>\<open>Promise.resolve\<close>. The reason of a rejection, and
  the payload of a Result that the caller has built, can be any value. Where the source
  hands such a value to \<^verbatim>\<open>Promise.resolve\<close> the model needs to know whether it is a
  thenable: a value of type \<open>'v val\<close> is a plain value or a thenable. A thenable is
  taken by the way it settles; what its \<^verbatim>\<open>then\<close> method may do to the world besides is
  not followed.
\<close>

datatype 'v val = Plain 'v | Thenable "('v val, 'v val) settled"

fun thenable :: "'v val \<Rightarrow> bool" where
  "thenable (Plain v) = False"
| "thenable (Thenable settlement) = True"

fun adopt :: "'v val \<Rightarrow> ('v val, 'v val) settled" where
  "adopt (Plain v) = Fulfilled (Plain v)"
| "adopt (Thenable (Fulfilled w)) = adopt w"
| "adopt (Thenable (Rejected x)) = Rejected x"

text \<open>
  \<^verbatim>\<open>Promise.resolve(v)\<close> for a value that may be a thenable.
\<close>

definition Promise_resolve :: "'v val \<Rightarrow> ('s, 'v val, 'v val) promise" where
  "Promise_resolve v s = (adopt v, s)"

section \<open>Promises in time\<close>

text \<open>
  Where several computations are under way at once, it matters when each of them acts on
  the world. A function that returns a promise does the first part of its work while it
  is called, and returns the promise. By then the promise is settled, or it is pending:
  the computation waits (for a timer, for an answer) and goes on later, from the state
  the world is in by then, up to its settlement or to its next wait. A task is what such
  a call returns. \<open>Pending d k\<close> waits for \<open>d\<close> units of time and then goes on as the
  continuation \<open>k\<close> says; the continuation is again a function that returns a task.
  Every task settles after finitely many waits.
\<close>

datatype ('s, 'x, 'a) task =
    Settled "('x, 'a) settled"
  | Pending nat "'s \<Rightarrow> ('s, 'x, 'a) task \<times> 's"

type_synonym ('s, 'x, 'a) timed = "'s \<Rightarrow> ('s, 'x, 'a) task \<times> 's"

text \<open>
  A computation that is over when the call returns, such as \<^verbatim>\<open>() => Promise.reject('A')\<close>
  or an \<^verbatim>\<open>async\<close> function without an \<^verbatim>\<open>await\<close>; and a computation that does nothing
  during the call and takes place when a timer of \<open>d\<close> units has run out, such as
  \<^verbatim>\<open>() => new Promise((_, reject) => { setTimeout(() => { reject('A') }, 200) })\<close>.
\<close>

definition immediately :: "('s, 'x, 'a) promise \<Rightarrow> ('s, 'x, 'a) timed" where
  "immediately p s = (case p s of (settlement, s') \<Rightarrow> (Settled settlement, s'))"

definition after :: "nat \<Rightarrow> ('s, 'x, 'a) promise \<Rightarrow> ('s, 'x, 'a) timed" where
  "after d p s = (Pending d (immediately p), s)"

text \<open>
  \<^verbatim>\<open>p.then(onfulfilled, onrejected)\<close>, step by step: the callbacks are attached to the
  task, and the matching one runs when the task settles, in the state of that moment.
  The recursion goes through the continuation of a pending task.
\<close>

primrec task_then ::
  "('s, 'x, 'a) task \<Rightarrow> ('a \<Rightarrow> ('s, 'y, 'b) timed) \<Rightarrow> ('x \<Rightarrow> ('s, 'y, 'b) timed) \<Rightarrow>
   ('s, 'y, 'b) timed" where
  "task_then (Settled settlement) =
     (\<lambda>onfulfilled onrejected s.
        case settlement of Fulfilled v \<Rightarrow> onfulfilled v s | Rejected x \<Rightarrow> onrejected x s)"
| "task_then (Pending d k) =
     (\<lambda>onfulfilled onrejected s.
        (Pending d (\<lambda>s'. case map_prod task_then id (k s') of
                            (rest, s'') \<Rightarrow> rest onfulfilled onrejected s''), s))"

definition promise_then_timed ::
  "('s, 'x, 'a) timed \<Rightarrow> ('a \<Rightarrow> ('s, 'y, 'b) timed) \<Rightarrow> ('x \<Rightarrow> ('s, 'y, 'b) timed) \<Rightarrow>
   ('s, 'y, 'b) timed" where
  "promise_then_timed p onfulfilled onrejected s =
     (case p s of (t, s') \<Rightarrow> task_then t onfulfilled onrejected s')"

text \<open>
  \<^verbatim>\<open>await\<close> and \<^verbatim>\<open>try\<close> with \<^verbatim>\<open>catch\<close>, step by step, defined as they are above.
\<close>

definition await_timed ::
  "('s, 'x, 'a) timed \<Rightarrow> ('a \<Rightarrow> ('s, 'x, 'b) timed) \<Rightarrow> ('s, 'x, 'b) timed" where
  "await_timed p rest = promise_then_timed p rest (\<lambda>x. immediately (reject x))"

definition try_catch_timed ::
  "('s, 'x, 'a) timed \<Rightarrow> ('x \<Rightarrow> ('s, 'y, 'a) timed) \<Rightarrow> ('s, 'y, 'a) timed" where
  "try_catch_timed body handler = promise_then_timed body (\<lambda>v. immediately (resolve v)) handler"

text \<open>
  A computation that runs with nothing else going on goes through its waits one after the
  other: that gives the value of type \<open>promise\<close> with which the sections above describe
  it.
\<close>

primrec alone_task :: "('s, 'x, 'a) task \<Rightarrow> ('s, 'x, 'a) promise" where
  "alone_task (Settled settlement) = (\<lambda>s. (settlement, s))"
| "alone_task (Pending d k) = (\<lambda>s. case map_prod alone_task id (k s) of (rest, s') \<Rightarrow> rest s')"

definition alone :: "('s, 'x, 'a) timed \<Rightarrow> ('s, 'x, 'a) promise" where
  "alone p s = (case p s of (t, s') \<Rightarrow> alone_task t s')"

subsection \<open>The timers\<close>

text \<open>
  The computations that are waiting are kept as timers: the instant at which the wait is
  over, the position of the computation in the list that was started, and its
  continuation. The timers are kept in the order in which they run out, and a timer is
  put behind those that run out at the same instant: computations whose waits are over
  at the same instant go on in the order in which they began to wait. A wait of no time,
  such as the \<^verbatim>\<open>await\<close> of a promise that is settled already, lets those computations go
  first that are due by then.
\<close>

type_synonym ('s, 'x, 'a) timer = "nat \<times> nat \<times> ('s \<Rightarrow> ('s, 'x, 'a) task \<times> 's)"

fun enqueue :: "('s, 'x, 'a) timer \<Rightarrow> ('s, 'x, 'a) timer list \<Rightarrow> ('s, 'x, 'a) timer list" where
  "enqueue timer [] = [timer]"
| "enqueue timer (next # timers) =
     (if fst timer < fst next then timer # next # timers else next # enqueue timer timers)"

text \<open>
  A completion records that the computation at a position has settled, at which instant,
  and how: the log of completions lists them in the order in which they take place.
\<close>

type_synonym ('x, 'a) completion = "nat \<times> nat \<times> ('x, 'a) settled"

abbreviation position :: "('x, 'a) completion \<Rightarrow> nat" where
  "position c \<equiv> fst c"

abbreviation instant :: "('x, 'a) completion \<Rightarrow> nat" where
  "instant c \<equiv> fst (snd c)"

abbreviation settlement :: "('x, 'a) completion \<Rightarrow> ('x, 'a) settled" where
  "settlement c \<equiv> snd (snd c)"

text \<open>
  The event loop takes the timer that runs out first and runs its continuation in the
  current state, up to the settlement of the computation, which is added to the log, or
  up to its next wait, which is a new timer. It goes on until no timer is left.
\<close>

function event_loop ::
  "('s, 'x, 'a) timer list \<Rightarrow> ('x, 'a) completion list \<Rightarrow> 's \<Rightarrow> ('x, 'a) completion list \<times> 's" where
  "event_loop [] log s = (log, s)"
| "event_loop ((now, i, k) # timers) log s =
     (case k s of
        (Settled r, s') \<Rightarrow> event_loop timers (log @ [(i, now, r)]) s'
      | (Pending d k', s') \<Rightarrow> event_loop (enqueue (now + d, i, k') timers) log s')"
  by pat_completeness auto

text \<open>
  The loop ends: a step replaces a continuation by one that it resumes as, or by nothing,
  and no continuation can be resumed for ever, a task being a finite object.
\<close>

termination
proof -
  define resumes :: "(('a \<Rightarrow> ('a, 'b, 'c) task \<times> 'a) \<times> ('a \<Rightarrow> ('a, 'b, 'c) task \<times> 'a)) set"
    where "resumes = {(k', k). \<exists>s d s'. k s = (Pending d k', s')}"
  have "\<forall>d k. t = Pending d k \<longrightarrow> k \<in> Wellfounded.acc resumes"
    for t :: "('a, 'b, 'c) task"
  proof (induction t)
    case (Settled r)
    show ?case by simp
  next
    case (Pending d k)
    have "k \<in> Wellfounded.acc resumes"
    proof (rule accI)
      fix k'
      assume "(k', k) \<in> resumes"
      then obtain s d' s' where step: "k s = (Pending d' k', s')"
        by (auto simp: resumes_def)
      then have "Pending d' k' \<in> Basic_BNFs.fsts (k s)"
        by simp
      from Pending.IH [OF rangeI this] show "k' \<in> Wellfounded.acc resumes"
        by simp
    qed
    then show ?case by simp
  qed
  then have "k \<in> Wellfounded.acc resumes" for k
    by blast
  then have wf: "wf resumes"
    by (auto intro: acc_wfI)
  define waiting :: "('a, 'b, 'c) timer list \<Rightarrow> ('a \<Rightarrow> ('a, 'b, 'c) task \<times> 'a) multiset"
    where "waiting timers = mset (map (\<lambda>timer. snd (snd timer)) timers)" for timers
  have enq: "waiting (enqueue timer timers) = add_mset (snd (snd timer)) (waiting timers)"
    for timer timers
    by (induction timers) (simp_all add: waiting_def)
  let ?order = "inv_image (mult resumes)
    (\<lambda>(timers, log :: ('b, 'c) completion list, s :: 'a). waiting timers)"
  show ?thesis
  proof (relation ?order)
    show "wf ?order"
      using wf by (simp add: wf_mult)
  next
    fix now i timers and k :: "'a \<Rightarrow> ('a, 'b, 'c) task \<times> 'a"
      and log :: "('b, 'c) completion list" and s :: 'a
      and r s' x
    have "(waiting timers + {#}, waiting timers + {#k#}) \<in> mult resumes"
      by (rule one_step_implies_mult) simp_all
    then show "((timers, log @ [(i, now, r)], s'), (now, i, k) # timers, log, s)
        \<in> ?order"
      by (simp add: waiting_def)
  next
    fix now i timers and k :: "'a \<Rightarrow> ('a, 'b, 'c) task \<times> 'a"
      and log :: "('b, 'c) completion list" and s :: 'a
      and x s' d and k' :: "'a \<Rightarrow> ('a, 'b, 'c) task \<times> 'a"
    assume "(x, s') = k s" "x = Pending d k'"
    then have "(k', k) \<in> resumes"
      by (auto simp: resumes_def intro: sym)
    then have "(waiting timers + {#k'#}, waiting timers + {#k#}) \<in> mult resumes"
      by (intro one_step_implies_mult) simp_all
    then show "((enqueue (now + d, i, k') timers, log, s'), (now, i, k) # timers, log, s)
        \<in> ?order"
      by (simp add: enq) (simp add: waiting_def)
  qed
qed

subsection \<open>Promise.all\<close>

text \<open>
  \<^verbatim>\<open>Promise.all(ps)\<close> goes through the list and subscribes to every element. For an
  element that is a thenable, that is a call of its \<^verbatim>\<open>then\<close>, and the calls take place
  in the order of the list, one after the other, before any of the computations they
  start is resumed. So the list is started from left to right, at instant \<open>0\<close>: each
  element is called in the state the calls before it have left, and gives a completion
  if it is settled when the call returns, and a timer if it is pending.
\<close>

fun start ::
  "('s, 'x, 'a) timed list \<Rightarrow> nat \<Rightarrow> ('x, 'a) completion list \<Rightarrow> ('s, 'x, 'a) timer list \<Rightarrow> 's \<Rightarrow>
   (('x, 'a) completion list \<times> ('s, 'x, 'a) timer list) \<times> 's" where
  "start [] i log timers s = ((log, timers), s)"
| "start (p # ps) i log timers s =
     (case p s of
        (Settled r, s') \<Rightarrow> start ps (Suc i) (log @ [(i, 0, r)]) timers s'
      | (Pending d k, s') \<Rightarrow> start ps (Suc i) log (enqueue (d, i, k) timers) s')"

text \<open>
  Then the computations go on together until the last of them has settled. No
  computation is cancelled, whatever happens to the others.
\<close>

definition run_together :: "('s, 'x, 'a) timed list \<Rightarrow> 's \<Rightarrow> ('x, 'a) completion list \<times> 's" where
  "run_together ps s =
     (case start ps 0 [] [] s of ((log, timers), s') \<Rightarrow> event_loop timers log s')"

text \<open>
  The promise that \<^verbatim>\<open>Promise.all\<close> returns is rejected when the first element is
  rejected, with the reason of that element, at that instant; otherwise it is fulfilled
  when the last element is fulfilled, with the values in the order of the positions. The
  state that is given with the settlement is the one in which all the computations are
  over; \<open>Promise_all_settled_at\<close> is the instant at which the promise settles.
\<close>

fun first_rejection :: "('x, 'a) completion list \<Rightarrow> ('x \<times> nat) option" where
  "first_rejection [] = None"
| "first_rejection ((i, t, Rejected x) # log) = Some (x, t)"
| "first_rejection ((i, t, Fulfilled v) # log) = first_rejection log"

fun fulfilment :: "('x, 'a) completion \<Rightarrow> 'a option" where
  "fulfilment (i, t, Fulfilled v) = Some v"
| "fulfilment (i, t, Rejected x) = None"

definition Promise_all :: "('s, 'x, 'a) timed list \<Rightarrow> ('s, 'x, 'a list) promise" where
  "Promise_all ps s =
     (case run_together ps s of
        (log, s') \<Rightarrow>
          (case first_rejection log of
             Some (x, t) \<Rightarrow> (Rejected x, s')
           | None \<Rightarrow> (Fulfilled (List.map_filter fulfilment (sort_key position log)), s')))"

definition Promise_all_settled_at :: "('s, 'x, 'a) timed list \<Rightarrow> 's \<Rightarrow> nat" where
  "Promise_all_settled_at ps s =
     (case run_together ps s of
        (log, s') \<Rightarrow>
          (case first_rejection log of
             Some (x, t) \<Rightarrow> t
           | None \<Rightarrow> foldr max (map instant log) 0))"

section \<open>The asynchronous ResultAsync\<close>

subsection \<open>The helpers\<close>

text \<open>
  The object \<^verbatim>\<open>helpers\<close> is the same for every run, and its methods are generic in the
  payload type, so the model has them as three constants rather than as an argument of
  the producer.

  \<^verbatim>\<open>liftResult(result)\<close> returns \<^verbatim>\<open>Promise.resolve(result.extract())\<close> for an \<^verbatim>\<open>Ok\<close> and
  throws \<^verbatim>\<open>result.extract()\<close> for an \<^verbatim>\<open>Err\<close>.
\<close>

definition helpers_liftResult :: "('e, 'a) result \<Rightarrow> ('s, 'e, 'a) promise" where
  "helpers_liftResult result = (case result of Ok v \<Rightarrow> resolve v | Err e \<Rightarrow> reject e)"

text \<open>
  That is \<^verbatim>\<open>liftResult\<close> where the payload of the \<^verbatim>\<open>Ok\<close> is not a thenable: the payload
  of a Result that a run has resolved to, which was read from a fulfilled promise, or an
  array. Where the payload of the \<^verbatim>\<open>Ok\<close> can be any value, \<^verbatim>\<open>Promise.resolve\<close> adopts
  it if it is a thenable.
\<close>

definition helpers_liftResult_val :: "('v val, 'v val) result \<Rightarrow> ('s, 'v val, 'v val) promise" where
  "helpers_liftResult_val result =
     (case result of Ok v \<Rightarrow> Promise_resolve v | Err e \<Rightarrow> reject e)"

text \<open>
  \<^verbatim>\<open>fromPromise(promise) = promise.then(helpers.liftResult)\<close>.
\<close>

definition helpers_fromPromise :: "('s, 'e, ('e, 'a) result) promise \<Rightarrow> ('s, 'e, 'a) promise" where
  "helpers_fromPromise promise = promise_then promise helpers_liftResult reject"

text \<open>
  \<^verbatim>\<open>throwE(error)\<close> throws \<^verbatim>\<open>error\<close>.
\<close>

definition helpers_throwE :: "'e \<Rightarrow> ('s, 'e, 'a) promise" where
  "helpers_throwE error = reject error"

subsection \<open>The class\<close>

text \<open>
  A \<^verbatim>\<open>ResultAsyncImpl\<close> holds one private field, the producer \<^verbatim>\<open>runPromise\<close>. Building one
  calls nothing: the producer is a value of type \<open>promise\<close>, which acts only when it is
  applied to a state. The specification calls the type AsyncOutcome.
\<close>

datatype ('s, 'e, 'a) resultAsync = ResultAsync (runPromise: "('s, 'e, 'a) promise")

text \<open>
  \<^verbatim>\<open>
  async run() {
    try { return Ok(await this.runPromise(helpers)) } catch (e) { return Err(e) }
  }
  \<close>
  The method returns a promise of a Result, whose rejection type \<open>'x\<close> is left open.
\<close>

definition run :: "('s, 'e, 'a) resultAsync \<Rightarrow> ('s, 'x, ('e, 'a) result) promise" where
  "run this = try_catch (await (runPromise this) (\<lambda>v. resolve (Ok v))) (\<lambda>e. resolve (Err e))"

text \<open>
  What a run gives when it is applied to a state: the settlement of the promise of a
  Result, and the state the run leaves.
\<close>

type_synonym ('s, 'x, 'e, 'a) resolution = "('x, ('e, 'a) result) settled \<times> 's"

text \<open>
  An element resolves to \<open>r\<close> when its run resolves to \<open>r\<close> in whatever state it is
  started.
\<close>

abbreviation resolves_to :: "('s, 'e, 'a) resultAsync \<Rightarrow> ('e, 'a) result \<Rightarrow> bool" where
  "resolves_to ea r \<equiv> (\<forall>s. fst (run ea s :: ('s, 'e, 'e, 'a) resolution) = Fulfilled r)"

text \<open>
  \<^verbatim>\<open>then = (onfulfilled, onrejected) => this.run().then(onfulfilled, onrejected)\<close> makes a
  ResultAsync a thenable, and \<^verbatim>\<open>await this\<close> on a thenable calls that method with the rest
  of the function as the first callback and the rejection of the function as the second.
\<close>

definition ResultAsync_then ::
  "('s, 'e, 'a) resultAsync \<Rightarrow> (('e, 'a) result \<Rightarrow> ('s, 'y, 'b) promise) \<Rightarrow>
   ('y \<Rightarrow> ('s, 'y, 'b) promise) \<Rightarrow> ('s, 'y, 'b) promise" where
  "ResultAsync_then this onfulfilled onrejected = promise_then (run this) onfulfilled onrejected"

definition await_thenable ::
  "('s, 'e, 'a) resultAsync \<Rightarrow> (('e, 'a) result \<Rightarrow> ('s, 'y, 'b) promise) \<Rightarrow> ('s, 'y, 'b) promise" where
  "await_thenable this rest = ResultAsync_then this rest reject"

text \<open>
  The static constructors: \<^verbatim>\<open>ResultAsync.fromPromise(f) = ResultAsync(({ fromPromise: fP }) => fP(f()))\<close> and
  \<^verbatim>\<open>ResultAsync.liftResult(result) = ResultAsync(({ liftResult }) => liftResult(result))\<close>. The
  argument \<open>f\<close> is a function without arguments that returns a promise; calling it is
  applying the promise to the state.
\<close>

definition ResultAsync_fromPromise ::
  "('s, 'e, ('e, 'a) result) promise \<Rightarrow> ('s, 'e, 'a) resultAsync" where
  "ResultAsync_fromPromise f = ResultAsync (helpers_fromPromise f)"

definition ResultAsync_liftResult :: "('e, 'a) result \<Rightarrow> ('s, 'e, 'a) resultAsync" where
  "ResultAsync_liftResult result = ResultAsync (helpers_liftResult result)"

text \<open>
  \<^verbatim>\<open>
  alt(other) {
    return ResultAsync(async (helpers) => {
      const thisValue = await this
      if (thisValue.isOk()) { return thisValue.extract() }
      else { const otherValue = await other; return helpers.liftResult(otherValue) }
    })
  }
  \<close>
\<close>

definition ResultAsync_alt ::
  "('s, 'e, 'a) resultAsync \<Rightarrow> ('s, 'e, 'a) resultAsync \<Rightarrow> ('s, 'e, 'a) resultAsync" where
  "ResultAsync_alt this other =
     ResultAsync (await_thenable this (\<lambda>thisValue.
       case thisValue of
         Ok v \<Rightarrow> resolve v
       | Err e \<Rightarrow> await_thenable other (\<lambda>otherValue. helpers_liftResult otherValue)))"

text \<open>
  \<^verbatim>\<open>
  swap() {
    return ResultAsync(async (helpers) => {
      const result = await this.run()
      if (result.isOk()) helpers.throwE(result.extract() as R)
      return helpers.liftResult(Ok(result.extract() as E))
    })
  }
  \<close>
  The payload of the \<^verbatim>\<open>Err\<close> that \<^verbatim>\<open>liftResult\<close> is given as the payload of an \<^verbatim>\<open>Ok\<close>
  is the reason of a rejection, or what was thrown: it can be any value.
\<close>

definition ResultAsync_swap ::
  "('s, 'v val, 'v val) resultAsync \<Rightarrow> ('s, 'v val, 'v val) resultAsync" where
  "ResultAsync_swap this =
     ResultAsync (await (run this) (\<lambda>result.
       case result of
         Ok v \<Rightarrow> helpers_throwE v
       | Err e \<Rightarrow> helpers_liftResult_val (Ok e)))"

text \<open>
  \<^verbatim>\<open>
  finally(effect) {
    return ResultAsync(({ fromPromise }) => fromPromise(this.run().finally(effect)))
  }
  \<close>
\<close>

definition ResultAsync_finally ::
  "('s, 'e, 'a) resultAsync \<Rightarrow> ('s, 'e, 'r) promise \<Rightarrow> ('s, 'e, 'a) resultAsync" where
  "ResultAsync_finally this effect =
     ResultAsync (helpers_fromPromise (promise_finally (run this) effect))"

text \<open>
  \<^verbatim>\<open>
  sequence: (eas) => ResultAsync(async (helpers) => {
    let res = []
    for await (const e of eas) {
      if (e.isErr()) { return helpers.liftResult(e) }
      res.push(e.extract())
    }
    return helpers.liftResult(Ok(res))
  })
  \<close>
  \<^verbatim>\<open>for await\<close> over an array takes the elements one at a time and awaits each before the
  body runs; an element is a thenable, so awaiting it runs it.
\<close>

fun sequence_loop :: "('s, 'e, 'a) resultAsync list \<Rightarrow> 'a list \<Rightarrow> ('s, 'e, 'a list) promise" where
  "sequence_loop [] res = helpers_liftResult (Ok res)"
| "sequence_loop (ea # eas) res =
     await_thenable ea (\<lambda>e.
       case e of
         Err l \<Rightarrow> helpers_liftResult (Err l)
       | Ok v \<Rightarrow> sequence_loop eas (res @ [v]))"

definition ResultAsync_sequence ::
  "('s, 'e, 'a) resultAsync list \<Rightarrow> ('s, 'e, 'a list) resultAsync" where
  "ResultAsync_sequence eas = ResultAsync (sequence_loop eas [])"

subsection \<open>Running the elements at the same time\<close>

text \<open>
  The elements that are handed to \<^verbatim>\<open>all\<close> run concurrently, so each of them is given
  with the course of its producer in time. The methods of the class that \<^verbatim>\<open>all\<close> uses
  are \<^verbatim>\<open>run\<close> and \<^verbatim>\<open>then\<close>; they are defined as they are above, step by step.
\<close>

datatype ('s, 'e, 'a) resultAsync_timed =
  ResultAsync_timed (runPromise_timed: "('s, 'e, 'a) timed")

definition run_timed :: "('s, 'e, 'a) resultAsync_timed \<Rightarrow> ('s, 'x, ('e, 'a) result) timed" where
  "run_timed this =
     try_catch_timed (await_timed (runPromise_timed this) (\<lambda>v. immediately (resolve (Ok v))))
       (\<lambda>e. immediately (resolve (Err e)))"

definition ResultAsync_then_timed ::
  "('s, 'e, 'a) resultAsync_timed \<Rightarrow> (('e, 'a) result \<Rightarrow> ('s, 'y, 'b) timed) \<Rightarrow>
   ('y \<Rightarrow> ('s, 'y, 'b) timed) \<Rightarrow> ('s, 'y, 'b) timed" where
  "ResultAsync_then_timed this onfulfilled onrejected =
     promise_then_timed (run_timed this) onfulfilled onrejected"

text \<open>
  \<^verbatim>\<open>
  all: (eas) => ResultAsync.fromPromise(async () => Promise.all(eas).then(Result.sequence))
  \<close>
  \<^verbatim>\<open>Promise.all\<close> turns each thenable into a promise by calling its \<^verbatim>\<open>then\<close> with the
  two functions that settle that promise. What follows \<^verbatim>\<open>Promise.all\<close> takes place when
  its promise has settled, one thing after the other.
\<close>

abbreviation promise_of_thenable ::
  "('s, 'e, 'a) resultAsync_timed \<Rightarrow> ('s, 'x, ('e, 'a) result) timed" where
  "promise_of_thenable ea \<equiv>
     ResultAsync_then_timed ea (\<lambda>v. immediately (resolve v)) (\<lambda>x. immediately (reject x))"

definition ResultAsync_all ::
  "('s, 'e, 'a) resultAsync_timed list \<Rightarrow> ('s, 'e, 'a list) resultAsync" where
  "ResultAsync_all eas =
     ResultAsync_fromPromise
       (await (Promise_all (map promise_of_thenable eas))
          (\<lambda>results. resolve (Result_sequence results)))"

text \<open>
  The log of the completions of the producers of the elements, when the elements run
  together from the state \<open>s\<close>.
\<close>

abbreviation completions ::
  "('s, 'e, 'a) resultAsync_timed list \<Rightarrow> 's \<Rightarrow> ('e, 'a) completion list" where
  "completions eas s \<equiv> fst (run_together (map runPromise_timed eas) s)"

text \<open>
  The Result that a run makes of the settlement of the producer's promise, and the
  Results that the runs of the elements resolve to, read from the log of the completions
  of the producers and put in the order of the positions; likewise the timer and the
  completion of a run, made of those of the producer.
\<close>

fun Result_of :: "('e, 'a) settled \<Rightarrow> ('e, 'a) result" where
  "Result_of (Fulfilled v) = Ok v"
| "Result_of (Rejected e) = Err e"

definition outcomes :: "('e, 'a) completion list \<Rightarrow> ('e, 'a) result list" where
  "outcomes log = map (\<lambda>c. Result_of (settlement c)) (sort_key position log)"

definition run_timer :: "('s, 'e, 'a) timer \<Rightarrow> ('s, 'x, ('e, 'a) result) timer" where
  "run_timer timer =
     (fst timer, fst (snd timer), run_timed (ResultAsync_timed (snd (snd timer))))"

definition run_completion :: "('e, 'a) completion \<Rightarrow> ('x, ('e, 'a) result) completion" where
  "run_completion c = (position c, instant c, Fulfilled (Result_of (settlement c)))"

text \<open>
  The result of \<^verbatim>\<open>all\<close> in the words of the specification: the first Failure observed
  among the elements, where the order of observation is the order in which the elements
  complete, and the Success of all the values in input order when there is no Failure.
  This definition is the specification's; the source does not contain it.
\<close>

definition first_failure_observed :: "('e, 'a) completion list \<Rightarrow> ('e, 'a list) result" where
  "first_failure_observed log =
     (case first_rejection log of
        Some (e, t) \<Rightarrow> Err e
      | None \<Rightarrow> Ok (Result_oks (outcomes log)))"

section \<open>Properties of the synchronous Result\<close>

text \<open>
  Claim C5. The synchronous \<^verbatim>\<open>ap\<close>: a Success applied to a Success function is the
  Success of the function's value; a Success applied to a Failure is that Failure; a
  Failure applied to a Success function is the receiver's Failure; and when both sides are
  Failures the function side's Failure is the result.
\<close>

theorem Result_ap_cases:
  "Result_ap (Ok v) (Ok fn) = Ok (fn v) \<and>
   Result_ap (Ok v) (Err e) = Err e \<and>
   Result_ap (Err e) (Ok fn) = Err e \<and>
   Result_ap (Err e) (Err e2) = Err e2"
  by simp

text \<open>
  Claim C9. \<^verbatim>\<open>altLazy\<close> on a Success returns the receiver and does not call the thunk:
  the state is the one it was given, whatever the thunk would do, and a counted thunk
  keeps its count. On a Failure it returns what the thunk returns, and the thunk has been
  called once.
\<close>

theorem Result_altLazy_calls:
  "Result_altLazy (Ok v) f s = (Ok v, s) \<and>
   Result_altLazy (Err e) f s = f s \<and>
   Result_altLazy (Ok v) (jest_fn f) (calls, s) = (Ok v, (calls, s)) \<and>
   Result_altLazy (Err e) (jest_fn f) (calls, s) = (fst (f s), (Suc calls, snd (f s)))"
  by (simp split: prod.split)

text \<open>
  Claim C10. \<^verbatim>\<open>ifErr\<close> and \<^verbatim>\<open>ifOk\<close> return the receiver. When the variant does not
  match, the effect is not called: the state is untouched and a counted effect keeps its
  count. When the variant matches, the effect is called once, on the payload: the state is
  the one that single call leaves, and a counted effect has its count raised by one.
\<close>

theorem Result_ifErr_ifOk_effect:
  "Result_ifErr (Ok v) effect s = (Ok v, s) \<and>
   Result_ifOk (Err e) effect' s = (Err e, s) \<and>
   Result_ifErr (Err e) effect s = (Err e, snd (effect e s)) \<and>
   Result_ifOk (Ok v) effect' s = (Ok v, snd (effect' v s)) \<and>
   Result_ifErr (Ok v) (\<lambda>x. jest_fn (effect x)) (calls, s) = (Ok v, (calls, s)) \<and>
   Result_ifOk (Err e) (\<lambda>x. jest_fn (effect' x)) (calls, s) = (Err e, (calls, s)) \<and>
   Result_ifErr (Err e) (\<lambda>x. jest_fn (effect x)) (calls, s) =
     (Err e, (Suc calls, snd (effect e s))) \<and>
   Result_ifOk (Ok v) (\<lambda>x. jest_fn (effect' x)) (calls, s) =
     (Ok v, (Suc calls, snd (effect' v s)))"
  by (simp split: prod.split)

subsection \<open>Equality\<close>

lemma strict_eq_sym: "strict_eq v w = strict_eq w v"
  by (cases v; cases w) auto

lemma strict_eq_primitive:
  "primitive v \<Longrightarrow> primitive w \<Longrightarrow> strict_eq v w = structural_eq v w"
  by (cases v; cases w) auto

text \<open>
  Claim C7, as the source has it. \<^verbatim>\<open>equals\<close> is true exactly when the two Results have
  the same variant and their payloads are equal under \<^verbatim>\<open>===\<close>; two Results of different
  variants are never equal; and for payloads that are primitives other than \<^verbatim>\<open>NaN\<close>,
  equality under \<^verbatim>\<open>===\<close> and structural equality are the same thing, so there the claim
  holds as it is written.
\<close>

theorem Result_equals_strict:
  "Result_equals a b =
     (isOk a = isOk b \<and> strict_eq (Result_extract a) (Result_extract b)) \<and>
   Result_equals (Ok v) (Err w) = False \<and>
   Result_equals (Err v) (Ok w) = False \<and>
   (primitive (Result_extract a) \<and> primitive (Result_extract b) \<longrightarrow>
      Result_equals a b =
        (isOk a = isOk b \<and> structural_eq (Result_extract a) (Result_extract b)))"
proof -
  have "Result_equals a b =
      (isOk a = isOk b \<and> strict_eq (Result_extract a) (Result_extract b))"
    by (cases a; cases b) (simp_all add: strict_eq_sym)
  then show ?thesis
    by (simp add: strict_eq_primitive)
qed

theorem Result_equals_strict_witness:
  "primitive (Result_extract (Ok (JNum 5))) \<and>
   primitive (Result_extract (Ok (JNum 5))) \<and>
   Result_equals (Ok (JNum 5)) (Ok (JNum 5)) \<and>
   \<not> Result_equals (Ok (JStr ''Error'')) (Err (JStr ''Error''))"
  using Result_equals_strict [of "Ok (JNum 5)" "Ok (JNum 5)" "JStr ''Error''" "JStr ''Error''"]
  by simp

text \<open>
  The claim as it is written fails on payloads that are objects: two Successes that hold
  two different objects with the same contents have the same variant and structurally
  equal payloads, and \<^verbatim>\<open>equals\<close> is false.
\<close>

theorem Result_equals_structural_counterexample:
  "isOk (Ok (JObj 1 [(''a'', JNum 1)]) :: (jsval, jsval) result) =
     isOk (Ok (JObj 2 [(''a'', JNum 1)]) :: (jsval, jsval) result) \<and>
   structural_eq (JObj 1 [(''a'', JNum 1)]) (JObj 2 [(''a'', JNum 1)]) \<and>
   \<not> Result_equals (Ok (JObj 1 [(''a'', JNum 1)])) (Ok (JObj 2 [(''a'', JNum 1)]))"
  by simp

subsection \<open>Result.sequence\<close>

lemma Result_sequence_loop_Oks:
  "Result_sequence_loop (map Ok vs @ rest) res = Result_sequence_loop rest (res @ vs)"
  by (induction vs arbitrary: res) simp_all

lemma Result_sequence_all_Ok: "Result_sequence (map Ok vs) = Ok vs"
  using Result_sequence_loop_Oks [of vs "[]" "[]"] by (simp add: Result_sequence_def)

lemma Result_sequence_first_Err: "Result_sequence (map Ok vs @ Err e # rest) = Err e"
  using Result_sequence_loop_Oks [of vs "Err e # rest" "[]"] by (simp add: Result_sequence_def)

section \<open>Properties of run\<close>

lemma run_runPromise:
  "run this s =
     (case runPromise this s of
        (Fulfilled v, s') \<Rightarrow> (Fulfilled (Ok v), s')
      | (Rejected e, s') \<Rightarrow> (Fulfilled (Err e), s'))"
  by (simp add: run_def try_catch_def await_def promise_then_def resolve_def reject_def
      split: prod.split settled.split)

lemma snd_run: "snd (run this s) = snd (runPromise this s)"
  by (simp add: run_runPromise split: prod.split settled.split)

lemma fst_run_Ok:
  "fst (run this s) = Fulfilled (Ok v) \<longleftrightarrow> fst (runPromise this s) = Fulfilled v"
  by (simp add: run_runPromise split: prod.split settled.split)

lemma fst_run_Err:
  "fst (run this s) = Fulfilled (Err e) \<longleftrightarrow> fst (runPromise this s) = Rejected e"
  by (simp add: run_runPromise split: prod.split settled.split)

lemma ResultAsync_then_settles: "ResultAsync_then this resolve reject = run this"
  by (rule ext)
    (simp add: ResultAsync_then_def promise_then_def resolve_def reject_def run_runPromise
      split: prod.split settled.split)

lemma await_thenable_runPromise:
  "await_thenable this rest s =
     (case runPromise this s of
        (Fulfilled v, s') \<Rightarrow> rest (Ok v) s'
      | (Rejected e, s') \<Rightarrow> rest (Err e) s')"
  by (simp add: await_thenable_def ResultAsync_then_def promise_then_def run_runPromise
      split: prod.split settled.split)

text \<open>
  Claim C1. \<^verbatim>\<open>run\<close> always resolves to a Result and never rejects, whatever the
  producer does. A producer whose promise is fulfilled with \<open>v\<close> gives \<open>Ok v\<close>; one
  whose promise is rejected with \<open>x\<close>, or which throws \<open>x\<close>, gives \<open>Err x\<close>. A
  producer that awaits \<^verbatim>\<open>throwE(e)\<close>, \<^verbatim>\<open>liftResult\<close> of an \<^verbatim>\<open>Err e\<close>, or
  \<^verbatim>\<open>fromPromise\<close> of a promise that is fulfilled with an \<^verbatim>\<open>Err e\<close> or rejected with \<open>e\<close>,
  gives \<open>Err e\<close> without running the rest of its body; one that awaits the helpers on
  an \<^verbatim>\<open>Ok v\<close> goes on with \<open>v\<close>.
\<close>

theorem run_never_rejects:
  "(\<exists>r s'. run this s = (Fulfilled r, s')) \<and>
   run (ResultAsync producer) s =
     (case producer s of
        (Fulfilled v, s') \<Rightarrow> (Fulfilled (Ok v), s')
      | (Rejected x, s') \<Rightarrow> (Fulfilled (Err x), s')) \<and>
   run (ResultAsync (resolve v)) s = (Fulfilled (Ok v), s) \<and>
   run (ResultAsync (reject e)) s = (Fulfilled (Err e), s) \<and>
   run (ResultAsync (await (helpers_throwE e) rest)) s = (Fulfilled (Err e), s) \<and>
   run (ResultAsync (await (helpers_liftResult (Err e)) rest)) s = (Fulfilled (Err e), s) \<and>
   run (ResultAsync (await (helpers_fromPromise (resolve (Err e))) rest)) s =
     (Fulfilled (Err e), s) \<and>
   run (ResultAsync (await (helpers_fromPromise (reject e)) rest)) s = (Fulfilled (Err e), s) \<and>
   run (ResultAsync (await (helpers_liftResult (Ok v)) rest)) s = run (ResultAsync (rest v)) s \<and>
   run (ResultAsync (await (helpers_fromPromise (resolve (Ok v))) rest)) s =
     run (ResultAsync (rest v)) s"
  by (simp add: run_runPromise await_def promise_then_def helpers_throwE_def
      helpers_liftResult_def helpers_fromPromise_def resolve_def reject_def
      split: prod.split settled.split)

section \<open>Properties of the combinators\<close>

text \<open>
  Claim C6. On the synchronous Result, a Success receiver is the result of \<^verbatim>\<open>alt\<close>
  whatever the argument is, and when both are Failures the argument's Failure is the
  result. On ResultAsync, when the receiver's run resolves to a Success the result is
  that Success in the state the receiver left, so the argument's producer has not been
  called; otherwise the result is what the argument's run resolves to, started in the
  state the receiver left.
\<close>

theorem alt_first_Ok_wins:
  fixes this :: "('s, 'e, 'a) resultAsync"
  shows
  "Result_alt (Ok v) other = Ok v \<and>
   Result_alt (Err e) (Err e2) = Err e2 \<and>
   (\<forall>w s'. (run this s :: ('s, 'x, 'e, 'a) resolution) = (Fulfilled (Ok w), s') \<longrightarrow>
      (run (ResultAsync_alt this that) s :: ('s, 'x, 'e, 'a) resolution) =
        (Fulfilled (Ok w), s')) \<and>
   (\<forall>x s'. (run this s :: ('s, 'x, 'e, 'a) resolution) = (Fulfilled (Err x), s') \<longrightarrow>
      (run (ResultAsync_alt this that) s :: ('s, 'x, 'e, 'a) resolution) = run that s')"
  by (simp add: run_runPromise ResultAsync_alt_def await_thenable_def ResultAsync_then_def
      promise_then_def helpers_liftResult_def resolve_def reject_def
      split: prod.split settled.split result.split)

theorem alt_first_Ok_wins_witness:
  "(run (ResultAsync_liftResult (Ok (5::nat))) (0::nat, ()) ::
      (nat \<times> unit, string, string, nat) resolution) = (Fulfilled (Ok 5), (0, ())) \<and>
   (run (ResultAsync_alt (ResultAsync_liftResult (Ok (5::nat))) (ResultAsync (jest_fn (resolve 6))))
      (0::nat, ()) :: (nat \<times> unit, string, string, nat) resolution) =
     (Fulfilled (Ok 5), (0, ())) \<and>
   (run (ResultAsync_liftResult (Err ''Error'')) (0::nat, ()) ::
      (nat \<times> unit, string, string, nat) resolution) =
     (Fulfilled (Err ''Error''), (0, ())) \<and>
   (run (ResultAsync_alt (ResultAsync_liftResult (Err ''Error''))
          (ResultAsync (jest_fn (reject ''Error!''))))
      (0::nat, ()) :: (nat \<times> unit, string, string, nat) resolution) =
     (Fulfilled (Err ''Error!''), (1, ()))"
proof -
  let ?ok = "ResultAsync_liftResult (Ok (5::nat)) :: (nat \<times> unit, string, nat) resultAsync"
  let ?err = "ResultAsync_liftResult (Err ''Error'') :: (nat \<times> unit, string, nat) resultAsync"
  have a: "(run ?ok (0, ()) :: (nat \<times> unit, string, string, nat) resolution) =
      (Fulfilled (Ok 5), (0, ()))"
    by (simp add: run_runPromise ResultAsync_liftResult_def helpers_liftResult_def resolve_def)
  have b: "(run ?err (0, ()) :: (nat \<times> unit, string, string, nat) resolution) =
      (Fulfilled (Err ''Error''), (0, ()))"
    by (simp add: run_runPromise ResultAsync_liftResult_def helpers_liftResult_def reject_def)
  have c: "(run (ResultAsync (jest_fn (reject ''Error!''))) (0::nat, ()) ::
      (nat \<times> unit, string, string, nat) resolution) =
      (Fulfilled (Err ''Error!''), (1, ()))"
    by (simp add: run_runPromise reject_def)
  from a alt_first_Ok_wins
    [where this = "?ok" and s = "(0, ())" and that = "ResultAsync (jest_fn (resolve 6))"
       and 'x = string]
  have "(run (ResultAsync_alt ?ok (ResultAsync (jest_fn (resolve 6)))) (0, ()) ::
      (nat \<times> unit, string, string, nat) resolution) = (Fulfilled (Ok 5), (0, ()))"
    by simp
  moreover from b c alt_first_Ok_wins
    [where this = "?err" and s = "(0, ())" and that = "ResultAsync (jest_fn (reject ''Error!''))"
       and 'x = string]
  have "(run (ResultAsync_alt ?err (ResultAsync (jest_fn (reject ''Error!'')))) (0, ()) ::
      (nat \<times> unit, string, string, nat) resolution) =
      (Fulfilled (Err ''Error!''), (1, ()))"
    by simp
  ultimately show ?thesis
    using a b by simp
qed

lemma run_swap:
  fixes this :: "('s, 'v val, 'v val) resultAsync"
  shows "(run (ResultAsync_swap this) s :: ('s, 'x, 'v val, 'v val) resolution) =
     (case run this s of
        (Fulfilled (Ok v), s') \<Rightarrow> (Fulfilled (Err v), s')
      | (Fulfilled (Err e), s') \<Rightarrow>
          (case adopt e of
             Fulfilled w \<Rightarrow> (Fulfilled (Ok w), s')
           | Rejected x \<Rightarrow> (Fulfilled (Err x), s'))
      | (Rejected x, s') \<Rightarrow> (Fulfilled (Err x), s'))"
  by (simp add: run_runPromise ResultAsync_swap_def await_def promise_then_def
      helpers_throwE_def helpers_liftResult_val_def Promise_resolve_def resolve_def reject_def
      split: prod.split settled.split result.split)

lemma adopt_plain: "\<not> thenable v \<Longrightarrow> adopt v = Fulfilled v"
  by (cases v) simp_all

text \<open>
  On a Result whose \<^verbatim>\<open>Ok\<close> payload is not a thenable, \<^verbatim>\<open>liftResult\<close> is the same at
  both types.
\<close>

lemma helpers_liftResult_val_plain:
  "(\<And>v. result = Ok v \<Longrightarrow> \<not> thenable v) \<Longrightarrow>
   helpers_liftResult_val result = helpers_liftResult result"
  by (cases result)
    (auto simp add: helpers_liftResult_val_def helpers_liftResult_def Promise_resolve_def
      resolve_def adopt_plain fun_eq_iff)

text \<open>
  Claim C8, as the source has it. Running \<^verbatim>\<open>swap\<close> of a ResultAsync gives the Failure of
  the value where the receiver gives a Success, by way of \<^verbatim>\<open>throwE\<close>. Where the receiver
  gives a Failure, its payload is handed to \<^verbatim>\<open>Promise.resolve\<close>: a payload that is not a
  thenable becomes the payload of the Success, and a thenable is adopted, so that the
  result is the Success of the value it is fulfilled with, or the Failure of the reason
  it is rejected with. The state is the one the receiver leaves. So swapping twice gives
  a ResultAsync whose run resolves to the same Result as the receiver's run when the
  payload of that Result is not a thenable; and when the receiver resolves to the Failure
  of a thenable that is fulfilled with \<open>w\<close>, swapping twice gives the Failure of
  \<open>w\<close>.
\<close>

theorem swap_run_involution:
  fixes a :: "('s, 'v val, 'v val) resultAsync"
  shows
  "(run (ResultAsync_swap a) s :: ('s, 'x, 'v val, 'v val) resolution) =
     (case run a s of
        (Fulfilled (Ok v), s') \<Rightarrow> (Fulfilled (Err v), s')
      | (Fulfilled (Err e), s') \<Rightarrow>
          (case adopt e of
             Fulfilled w \<Rightarrow> (Fulfilled (Ok w), s')
           | Rejected x \<Rightarrow> (Fulfilled (Err x), s'))
      | (Rejected x, s') \<Rightarrow> (Fulfilled (Err x), s')) \<and>
   (\<forall>r s'. (run a s :: ('s, 'x, 'v val, 'v val) resolution) = (Fulfilled r, s') \<and>
        \<not> thenable (Result_extract r) \<longrightarrow>
      (run (ResultAsync_swap (ResultAsync_swap a)) s :: ('s, 'x, 'v val, 'v val) resolution) =
        (Fulfilled r, s')) \<and>
   (\<forall>e w s'. (run a s :: ('s, 'x, 'v val, 'v val) resolution) = (Fulfilled (Err e), s') \<and>
        adopt e = Fulfilled w \<longrightarrow>
      (run (ResultAsync_swap (ResultAsync_swap a)) s :: ('s, 'x, 'v val, 'v val) resolution) =
        (Fulfilled (Err w), s'))"
proof -
  have twice: "(run (ResultAsync_swap (ResultAsync_swap a)) s ::
        ('s, 'x, 'v val, 'v val) resolution) = (Fulfilled r, s')"
    if "(run a s :: ('s, 'x, 'v val, 'v val) resolution) = (Fulfilled r, s')"
      and "\<not> thenable (Result_extract r)" for r s'
    using that
    by (cases r)
      (auto simp add: run_runPromise ResultAsync_swap_def await_def promise_then_def
        helpers_throwE_def helpers_liftResult_val_def Promise_resolve_def resolve_def reject_def
        adopt_plain
        split: prod.splits settled.splits)
  have adopted: "(run (ResultAsync_swap (ResultAsync_swap a)) s ::
        ('s, 'x, 'v val, 'v val) resolution) = (Fulfilled (Err w), s')"
    if "(run a s :: ('s, 'x, 'v val, 'v val) resolution) = (Fulfilled (Err e), s')"
      and "adopt e = Fulfilled w" for e w s'
    using that
    by (auto simp add: run_runPromise ResultAsync_swap_def await_def promise_then_def
        helpers_throwE_def helpers_liftResult_val_def Promise_resolve_def resolve_def reject_def
        split: prod.splits settled.splits)
  from twice adopted show ?thesis
    by (simp only: run_swap [of a s]) blast
qed

text \<open>
  The two runs of the test of \<^verbatim>\<open>swap\<close>, swapped twice: the payloads are a number and a
  string.
\<close>

theorem swap_run_involution_witness:
  "(run (ResultAsync (resolve (Plain (JNum 5)))) () ::
      (unit, jsval val, jsval val, jsval val) resolution) = (Fulfilled (Ok (Plain (JNum 5))), ()) \<and>
   \<not> thenable (Result_extract (Ok (Plain (JNum 5)) :: (jsval val, jsval val) result)) \<and>
   (run (ResultAsync_swap (ResultAsync_swap (ResultAsync (resolve (Plain (JNum 5)))))) () ::
      (unit, jsval val, jsval val, jsval val) resolution) = (Fulfilled (Ok (Plain (JNum 5))), ()) \<and>
   (run (ResultAsync (reject (Plain (JStr ''fail'')))) () ::
      (unit, jsval val, jsval val, jsval val) resolution) =
     (Fulfilled (Err (Plain (JStr ''fail''))), ()) \<and>
   (run (ResultAsync_swap (ResultAsync_swap (ResultAsync (reject (Plain (JStr ''fail'')))))) () ::
      (unit, jsval val, jsval val, jsval val) resolution) =
     (Fulfilled (Err (Plain (JStr ''fail''))), ())"
proof -
  let ?ok = "ResultAsync (resolve (Plain (JNum 5))) :: (unit, jsval val, jsval val) resultAsync"
  let ?err = "ResultAsync (reject (Plain (JStr ''fail''))) ::
    (unit, jsval val, jsval val) resultAsync"
  have a: "(run ?ok () :: (unit, jsval val, jsval val, jsval val) resolution) =
      (Fulfilled (Ok (Plain (JNum 5))), ())"
    by (simp add: run_runPromise resolve_def)
  have b: "(run ?err () :: (unit, jsval val, jsval val, jsval val) resolution) =
      (Fulfilled (Err (Plain (JStr ''fail''))), ())"
    by (simp add: run_runPromise reject_def)
  note inst = swap_run_involution [where 'x = "jsval val" and s = "()", THEN conjunct2,
      THEN conjunct1, rule_format]
  have "(run (ResultAsync_swap (ResultAsync_swap ?ok)) () ::
      (unit, jsval val, jsval val, jsval val) resolution) = (Fulfilled (Ok (Plain (JNum 5))), ())"
    by (rule inst [of ?ok]) (simp add: a)
  moreover have "(run (ResultAsync_swap (ResultAsync_swap ?err)) () ::
      (unit, jsval val, jsval val, jsval val) resolution) =
      (Fulfilled (Err (Plain (JStr ''fail''))), ())"
    by (rule inst [of ?err]) (simp add: b)
  ultimately show ?thesis
    using a b by simp
qed

text \<open>
  The claim as it is written fails on a producer whose promise is rejected with a
  promise of 7. Its run resolves to the Failure of that promise. Its \<^verbatim>\<open>swap\<close> hands the
  promise to \<^verbatim>\<open>Promise.resolve\<close>, which adopts it, and resolves to the Success of 7; so
  swapping twice resolves to the Failure of 7, which is another Result.
\<close>

theorem swap_thenable_counterexample:
  "(run (ResultAsync (reject (Thenable (Fulfilled (Plain (JNum 7)))))) () ::
      (unit, jsval val, jsval val, jsval val) resolution) =
     (Fulfilled (Err (Thenable (Fulfilled (Plain (JNum 7))))), ()) \<and>
   (run (ResultAsync_swap (ResultAsync (reject (Thenable (Fulfilled (Plain (JNum 7))))))) () ::
      (unit, jsval val, jsval val, jsval val) resolution) =
     (Fulfilled (Ok (Plain (JNum 7))), ()) \<and>
   (run (ResultAsync_swap (ResultAsync_swap
          (ResultAsync (reject (Thenable (Fulfilled (Plain (JNum 7)))))))) () ::
      (unit, jsval val, jsval val, jsval val) resolution) =
     (Fulfilled (Err (Plain (JNum 7))), ()) \<and>
   (run (ResultAsync_swap (ResultAsync_swap
          (ResultAsync (reject (Thenable (Fulfilled (Plain (JNum 7)))))))) () ::
      (unit, jsval val, jsval val, jsval val) resolution) \<noteq>
     run (ResultAsync (reject (Thenable (Fulfilled (Plain (JNum 7)))))) ()"
  by (simp add: run_runPromise ResultAsync_swap_def await_def promise_then_def helpers_throwE_def
      helpers_liftResult_val_def Promise_resolve_def resolve_def reject_def)

text \<open>
  Claim C4, as the source has it. \<^verbatim>\<open>finally(effect)\<close> runs the receiver and then, whether
  the receiver resolved to a Success or to a Failure, calls the effect in the state the
  receiver left. When the effect completes, the result is the Result the receiver's run
  resolved to. When the effect raises \<open>x\<close>, or returns a promise that is rejected with
  \<open>x\<close>, the result is the Failure of \<open>x\<close>, whatever the receiver resolved to.
\<close>

theorem finally_runs_effect:
  "run (ResultAsync_finally this effect) s =
     (case run this s of
        (outcome, s') \<Rightarrow>
          (case effect s' of
             (Fulfilled u, s'') \<Rightarrow> (outcome, s'')
           | (Rejected x, s'') \<Rightarrow> (Fulfilled (Err x), s'')))"
  by (simp add: run_runPromise ResultAsync_finally_def helpers_fromPromise_def promise_finally_def
      promise_then_def helpers_liftResult_def resolve_def reject_def
      split: prod.split settled.split result.split)

text \<open>
  The claim as it is written fails when the effect raises: the receiver resolves to the
  Success of 5, the effect throws, and the result is the Failure of what was thrown.
\<close>

theorem finally_effect_failure_counterexample:
  "(run (ResultAsync_liftResult (Ok (5::nat))) () ::
      (unit, string, string, nat) resolution) = (Fulfilled (Ok 5), ()) \<and>
   (run (ResultAsync_finally (ResultAsync_liftResult (Ok (5::nat)))
          (reject ''boom'' :: (unit, string, unit) promise)) () ::
      (unit, string, string, nat) resolution) = (Fulfilled (Err ''boom''), ())"
  by (simp add: run_runPromise ResultAsync_finally_def ResultAsync_liftResult_def
      helpers_fromPromise_def promise_finally_def promise_then_def helpers_liftResult_def
      resolve_def reject_def)

section \<open>Properties of sequence\<close>

lemma sequence_loop_Nil: "sequence_loop [] res s = (Fulfilled res, s)"
  by (simp add: helpers_liftResult_def resolve_def)

lemma sequence_loop_Cons:
  "sequence_loop (ea # eas) res s =
     (case runPromise ea s of
        (Fulfilled v, s') \<Rightarrow> sequence_loop eas (res @ [v]) s'
      | (Rejected e, s') \<Rightarrow> (Rejected e, s'))"
  by (simp add: await_thenable_runPromise helpers_liftResult_def reject_def
      split: prod.split settled.split)

declare sequence_loop.simps [simp del]

text \<open>
  What the loop has pushed so far is a prefix of what it returns.
\<close>

lemma sequence_loop_res:
  "sequence_loop eas res s =
     (case sequence_loop eas [] s of
        (Fulfilled vs, s') \<Rightarrow> (Fulfilled (res @ vs), s')
      | (Rejected e, s') \<Rightarrow> (Rejected e, s'))"
proof (induction eas arbitrary: res s)
  case Nil
  show ?case by (simp add: sequence_loop_Nil)
next
  case (Cons ea eas)
  show ?case
  proof (cases "runPromise ea s")
    case (Pair settlement s')
    show ?thesis
    proof (cases settlement)
      case (Fulfilled v)
      have a: "sequence_loop (ea # eas) res s = sequence_loop eas (res @ [v]) s'"
        using Pair Fulfilled by (simp add: sequence_loop_Cons)
      have b: "sequence_loop (ea # eas) [] s = sequence_loop eas [v] s'"
        using Pair Fulfilled by (simp add: sequence_loop_Cons)
      have c: "sequence_loop eas (res @ [v]) s' =
          (case sequence_loop eas [] s' of
             (Fulfilled vs, s'') \<Rightarrow> (Fulfilled ((res @ [v]) @ vs), s'')
           | (Rejected e, s'') \<Rightarrow> (Rejected e, s''))"
        by (rule Cons.IH)
      have d: "sequence_loop eas [v] s' =
          (case sequence_loop eas [] s' of
             (Fulfilled vs, s'') \<Rightarrow> (Fulfilled ([v] @ vs), s'')
           | (Rejected e, s'') \<Rightarrow> (Rejected e, s''))"
        by (rule Cons.IH)
      show ?thesis
        unfolding a b c d by (simp split: prod.split settled.split)
    next
      case (Rejected e)
      then show ?thesis
        using Pair by (simp add: sequence_loop_Cons)
    qed
  qed
qed

lemma run_sequence_Cons:
  "run (ResultAsync_sequence (ea # eas)) s =
     (case run ea s of
        (Fulfilled (Ok v), s') \<Rightarrow>
          (case run (ResultAsync_sequence eas) s' of
             (Fulfilled (Ok vs), s'') \<Rightarrow> (Fulfilled (Ok (v # vs)), s'')
           | (Fulfilled (Err e), s'') \<Rightarrow> (Fulfilled (Err e), s'')
           | (Rejected x, s'') \<Rightarrow> (Rejected x, s''))
      | (Fulfilled (Err e), s') \<Rightarrow> (Fulfilled (Err e), s')
      | (Rejected x, s') \<Rightarrow> (Rejected x, s'))"
proof (cases "runPromise ea s")
  case (Pair settlement s')
  show ?thesis
  proof (cases settlement)
    case (Fulfilled v)
    have "sequence_loop (ea # eas) [] s = sequence_loop eas [v] s'"
      using Pair Fulfilled by (simp add: sequence_loop_Cons)
    then show ?thesis
      using Pair Fulfilled
      by (simp add: ResultAsync_sequence_def run_runPromise [of "ResultAsync _"]
            run_runPromise [of ea] sequence_loop_res [of eas "[v]"]
          split: prod.split settled.split)
  next
    case (Rejected e)
    then show ?thesis
      using Pair by (simp add: ResultAsync_sequence_def run_runPromise sequence_loop_Cons)
  qed
qed

text \<open>
  The loop on a list of elements each of which resolves to the same Result in every
  state: when all are Successes every producer is called, in input order; when one is a
  Failure the producers up to that one are called, in input order, and no other.
\<close>

lemma sequence_loop_all_Ok:
  "list_all2 resolves_to eas (map Ok vs) \<Longrightarrow>
   sequence_loop eas res s =
     (Fulfilled (res @ vs), foldl (\<lambda>s ea. snd (runPromise ea s)) s eas)"
proof (induction vs arbitrary: eas res s)
  case Nil
  then show ?case by (simp add: sequence_loop_Nil)
next
  case (Cons v vs)
  from Cons.prems obtain ea eas' where eas: "eas = ea # eas'"
    and ea: "resolves_to ea (Ok v)"
    and rest: "list_all2 resolves_to eas' (map Ok vs)"
    by (auto simp: list_all2_Cons2)
  from ea have "fst (runPromise ea s) = Fulfilled v"
    by (simp add: fst_run_Ok)
  then have "sequence_loop (ea # eas') res s =
      sequence_loop eas' (res @ [v]) (snd (runPromise ea s))"
    by (cases "runPromise ea s") (simp add: sequence_loop_Cons)
  also have "\<dots> = (Fulfilled ((res @ [v]) @ vs),
      foldl (\<lambda>s ea. snd (runPromise ea s)) (snd (runPromise ea s)) eas')"
    using rest by (rule Cons.IH)
  finally show ?case by (simp add: eas)
qed

lemma sequence_loop_first_Err:
  "list_all2 resolves_to eas (map Ok vs @ Err e # rest) \<Longrightarrow>
   sequence_loop eas res s =
     (Rejected e, foldl (\<lambda>s ea. snd (runPromise ea s)) s (take (Suc (length vs)) eas))"
proof (induction vs arbitrary: eas res s)
  case Nil
  then obtain ea eas' where eas: "eas = ea # eas'"
    and ea: "resolves_to ea (Err e)"
    by (auto simp: list_all2_Cons2)
  from ea have "fst (runPromise ea s) = Rejected e"
    by (simp add: fst_run_Err)
  then have "sequence_loop (ea # eas') res s = (Rejected e, snd (runPromise ea s))"
    by (cases "runPromise ea s") (simp add: sequence_loop_Cons)
  then show ?case by (simp add: eas)
next
  case (Cons v vs)
  from Cons.prems obtain ea eas' where eas: "eas = ea # eas'"
    and ea: "resolves_to ea (Ok v)"
    and rest: "list_all2 resolves_to eas' (map Ok vs @ Err e # rest)"
    by (auto simp: list_all2_Cons2)
  from ea have "fst (runPromise ea s) = Fulfilled v"
    by (simp add: fst_run_Ok)
  then have "sequence_loop (ea # eas') res s =
      sequence_loop eas' (res @ [v]) (snd (runPromise ea s))"
    by (cases "runPromise ea s") (simp add: sequence_loop_Cons)
  also have "\<dots> = (Rejected e,
      foldl (\<lambda>s ea. snd (runPromise ea s)) (snd (runPromise ea s))
        (take (Suc (length vs)) eas'))"
    using rest by (rule Cons.IH)
  finally show ?case by (simp add: eas)
qed

text \<open>
  Claim C3. \<^verbatim>\<open>sequence\<close> of the empty list resolves to the Success of the empty list.
  \<^verbatim>\<open>sequence\<close> of a list runs the first element; if that resolves to a Failure, this
  Failure is the result and the state is the one the first element left, whatever the
  later elements are; if it resolves to a Success, the rest of the list is run from the
  state the first element left and the value is put in front of the values of the rest.
  So, for elements each of which resolves to the same Result in every state: when the
  Results are Successes up to a first Failure, the result is that Failure and the
  producers called are those of the elements up to it, in input order, each once, and no
  later one; when all are Successes, the result is the Success of the values in input
  order and every producer has been called, in input order.
\<close>

theorem sequence_stops_at_first_failure:
  fixes ea :: "('s, 'e, 'a) resultAsync"
  shows
  "(run (ResultAsync_sequence []) s :: ('s, 'x, 'e, 'a list) resolution) =
     (Fulfilled (Ok []), s) \<and>
   (run (ResultAsync_sequence (ea # eas)) s :: ('s, 'x, 'e, 'a list) resolution) =
     (case run ea s of
        (Fulfilled (Ok v), s') \<Rightarrow>
          (case run (ResultAsync_sequence eas) s' of
             (Fulfilled (Ok vs), s'') \<Rightarrow> (Fulfilled (Ok (v # vs)), s'')
           | (Fulfilled (Err e), s'') \<Rightarrow> (Fulfilled (Err e), s'')
           | (Rejected x, s'') \<Rightarrow> (Rejected x, s''))
      | (Fulfilled (Err e), s') \<Rightarrow> (Fulfilled (Err e), s')
      | (Rejected x, s') \<Rightarrow> (Rejected x, s')) \<and>
   (list_all2 resolves_to eas' (map Ok vs @ Err e # rest) \<longrightarrow>
      (run (ResultAsync_sequence eas') s :: ('s, 'x, 'e, 'a list) resolution) =
        (Fulfilled (Err e),
         foldl (\<lambda>s ea. snd (runPromise ea s)) s (take (Suc (length vs)) eas'))) \<and>
   (list_all2 resolves_to eas' (map Ok vs) \<longrightarrow>
      (run (ResultAsync_sequence eas') s :: ('s, 'x, 'e, 'a list) resolution) =
        (Fulfilled (Ok vs), foldl (\<lambda>s ea. snd (runPromise ea s)) s eas'))"
proof (intro conjI impI)
  show "(run (ResultAsync_sequence []) s :: ('s, 'x, 'e, 'a list) resolution) =
      (Fulfilled (Ok []), s)"
    by (simp add: ResultAsync_sequence_def run_runPromise sequence_loop_Nil)
  show "(run (ResultAsync_sequence (ea # eas)) s :: ('s, 'x, 'e, 'a list) resolution) =
     (case run ea s of
        (Fulfilled (Ok v), s') \<Rightarrow>
          (case run (ResultAsync_sequence eas) s' of
             (Fulfilled (Ok vs), s'') \<Rightarrow> (Fulfilled (Ok (v # vs)), s'')
           | (Fulfilled (Err e), s'') \<Rightarrow> (Fulfilled (Err e), s'')
           | (Rejected x, s'') \<Rightarrow> (Rejected x, s''))
      | (Fulfilled (Err e), s') \<Rightarrow> (Fulfilled (Err e), s')
      | (Rejected x, s') \<Rightarrow> (Rejected x, s'))"
    by (rule run_sequence_Cons)
next
  assume "list_all2 resolves_to eas' (map Ok vs @ Err e # rest)"
  then have "runPromise (ResultAsync_sequence eas') s =
      (Rejected e, foldl (\<lambda>s ea. snd (runPromise ea s)) s (take (Suc (length vs)) eas'))"
    by (simp only: ResultAsync_sequence_def resultAsync.sel sequence_loop_first_Err)
  then show "(run (ResultAsync_sequence eas') s :: ('s, 'x, 'e, 'a list) resolution) =
      (Fulfilled (Err e),
       foldl (\<lambda>s ea. snd (runPromise ea s)) s (take (Suc (length vs)) eas'))"
    by (simp only: run_runPromise prod.case settled.case)
next
  assume "list_all2 resolves_to eas' (map Ok vs)"
  then have "runPromise (ResultAsync_sequence eas') s =
      (Fulfilled ([] @ vs), foldl (\<lambda>s ea. snd (runPromise ea s)) s eas')"
    by (simp only: ResultAsync_sequence_def resultAsync.sel sequence_loop_all_Ok)
  then show "(run (ResultAsync_sequence eas') s :: ('s, 'x, 'e, 'a list) resolution) =
      (Fulfilled (Ok vs), foldl (\<lambda>s ea. snd (runPromise ea s)) s eas')"
    by (simp only: run_runPromise prod.case settled.case append_Nil)
qed

text \<open>
  The two lists of the test of \<^verbatim>\<open>sequence\<close>. After an element that rejects with
  \<^verbatim>\<open>'A'\<close>, the counted producer has not been called; after an element that resolves to
  1, it has been called once.
\<close>

theorem sequence_stops_at_first_failure_witness:
  "list_all2 resolves_to
     ([ResultAsync (reject ''A''), ResultAsync (jest_fn (resolve 2))] ::
        (nat \<times> unit, string, nat) resultAsync list)
     (map Ok [] @ Err ''A'' # [Ok 2]) \<and>
   (run (ResultAsync_sequence [ResultAsync (reject ''A''), ResultAsync (jest_fn (resolve 2))])
      (0, ()) :: (nat \<times> unit, string, string, nat list) resolution) =
     (Fulfilled (Err ''A''), (0, ())) \<and>
   list_all2 resolves_to
     ([ResultAsync_liftResult (Ok 1), ResultAsync (jest_fn (resolve 2))] ::
        (nat \<times> unit, string, nat) resultAsync list)
     (map Ok [1, 2]) \<and>
   (run (ResultAsync_sequence [ResultAsync_liftResult (Ok 1), ResultAsync (jest_fn (resolve 2))])
      (0, ()) :: (nat \<times> unit, string, string, nat list) resolution) =
     (Fulfilled (Ok [1, 2]), (1, ()))"
proof -
  let ?failing = "[ResultAsync (reject ''A''), ResultAsync (jest_fn (resolve 2))] ::
    (nat \<times> unit, string, nat) resultAsync list"
  let ?passing = "[ResultAsync_liftResult (Ok 1), ResultAsync (jest_fn (resolve 2))] ::
    (nat \<times> unit, string, nat) resultAsync list"
  have f: "list_all2 resolves_to ?failing (map Ok [] @ Err ''A'' # [Ok 2])"
    by (simp add: run_runPromise reject_def resolve_def split: prod.split)
  have p: "list_all2 resolves_to ?passing (map Ok [1, 2])"
    by (simp add: run_runPromise ResultAsync_liftResult_def helpers_liftResult_def resolve_def
        split: prod.split)
  note inst = sequence_stops_at_first_failure [where 'x = string and s = "(0::nat, ())"]
  from inst [where eas' = "?failing" and vs = "[]" and e = "''A''" and rest = "[Ok 2]",
      THEN conjunct2, THEN conjunct2, THEN conjunct1, THEN mp, OF f]
  have "(run (ResultAsync_sequence ?failing) (0, ()) ::
      (nat \<times> unit, string, string, nat list) resolution) = (Fulfilled (Err ''A''), (0, ()))"
    by (simp add: reject_def)
  moreover from inst [where eas' = "?passing" and vs = "[1, 2]",
      THEN conjunct2, THEN conjunct2, THEN conjunct2, THEN mp, OF p]
  have "(run (ResultAsync_sequence ?passing) (0, ()) ::
      (nat \<times> unit, string, string, nat list) resolution) = (Fulfilled (Ok [1, 2]), (1, ()))"
    by (simp add: ResultAsync_liftResult_def helpers_liftResult_def resolve_def)
  ultimately show ?thesis
    using f p by simp
qed

section \<open>Properties of promises in time\<close>

lemma task_then_Pending:
  "task_then (Pending d k) onfulfilled onrejected s =
     (Pending d (promise_then_timed k onfulfilled onrejected), s)"
proof -
  have "(\<lambda>s'. case map_prod task_then id (k s') of
          (rest, s'') \<Rightarrow> rest onfulfilled onrejected s'') =
        promise_then_timed k onfulfilled onrejected"
    by (rule ext) (simp add: promise_then_timed_def split: prod.split)
  then show ?thesis by simp
qed

lemma task_then_Settled:
  "task_then (Settled r) onfulfilled onrejected s =
     (case r of Fulfilled v \<Rightarrow> onfulfilled v s | Rejected x \<Rightarrow> onrejected x s)"
  by simp

declare task_then.simps [simp del]

text \<open>
  Callbacks that settle a promise as it is give the promise back.
\<close>

lemma task_then_settles:
  "task_then t (\<lambda>v. immediately (resolve v)) (\<lambda>x. immediately (reject x)) s = (t, s)"
proof (induction t arbitrary: s)
  case (Settled r)
  show ?case
    by (cases r) (simp_all add: task_then_Settled immediately_def resolve_def reject_def)
next
  case (Pending d k)
  have "promise_then_timed k (\<lambda>v. immediately (resolve v)) (\<lambda>x. immediately (reject x)) = k"
  proof
    fix s'
    obtain t s'' where step: "k s' = (t, s'')" by (cases "k s'")
    then have "t \<in> Basic_BNFs.fsts (k s')" by simp
    from Pending.IH [OF rangeI this] step
    show "promise_then_timed k (\<lambda>v. immediately (resolve v)) (\<lambda>x. immediately (reject x)) s' =
        k s'"
      by (simp add: promise_then_timed_def)
  qed
  then show ?case by (simp add: task_then_Pending)
qed

lemma promise_then_timed_settles:
  "promise_then_timed p (\<lambda>v. immediately (resolve v)) (\<lambda>x. immediately (reject x)) = p"
  by (rule ext) (simp add: promise_then_timed_def task_then_settles split: prod.split)

lemma alone_task_Pending: "alone_task (Pending d k) s = alone k s"
  by (simp add: alone_def split: prod.split)

declare alone_task.simps(2) [simp del]

lemma alone_immediately: "alone (immediately p) = p"
  by (rule ext) (simp add: alone_def immediately_def split: prod.split)

lemma alone_after: "alone (after d p) = p"
  by (rule ext) (simp add: alone_def after_def alone_task_Pending alone_immediately)

lemma mset_enqueue: "mset (enqueue timer timers) = add_mset timer (mset timers)"
  by (induction timers) simp_all

text \<open>
  Every computation that is waiting completes, once: the positions in the log at the end
  are those that were in the log before and those of the timers.
\<close>

lemma event_loop_positions:
  "mset (map position (fst (event_loop timers log s))) =
     mset (map position log) + mset (map (\<lambda>timer. fst (snd timer)) timers)"
proof (induction timers log s rule: event_loop.induct)
  case (1 log s)
  show ?case by simp
next
  case (2 now i k timers log s)
  show ?case
  proof (cases "k s")
    case (Pair t s')
    show ?thesis
    proof (cases t)
      case (Settled r)
      with Pair 2(1) [of "Settled r" s' r] show ?thesis by simp
    next
      case (Pending d k')
      with Pair 2(2) [of "Pending d k'" s' d k'] show ?thesis
        by (simp add: mset_enqueue)
    qed
  qed
qed

lemma start_positions:
  "start ps i log timers s = ((log', timers'), s') \<Longrightarrow>
   mset (map position log') + mset (map (\<lambda>timer. fst (snd timer)) timers') =
     mset (map position log) + mset (map (\<lambda>timer. fst (snd timer)) timers) +
       mset [i..<i + length ps]"
proof (induction ps arbitrary: i log timers s)
  case Nil
  then show ?case by simp
next
  case (Cons p ps)
  have upt: "mset [i..<i + length (p # ps)] = add_mset i (mset [Suc i..<Suc i + length ps])"
    by (simp add: upt_rec)
  show ?case
  proof (cases "p s")
    case (Pair t s1)
    show ?thesis
    proof (cases t)
      case (Settled r)
      with Pair Cons.prems
      have "start ps (Suc i) (log @ [(i, 0, r)]) timers s1 = ((log', timers'), s')"
        by simp
      from Cons.IH [OF this] show ?thesis
        unfolding upt by simp
    next
      case (Pending d k)
      with Pair Cons.prems
      have "start ps (Suc i) log (enqueue (d, i, k) timers) s1 = ((log', timers'), s')"
        by simp
      from Cons.IH [OF this] show ?thesis
        unfolding upt by (simp add: mset_enqueue)
    qed
  qed
qed

lemma run_together_positions:
  "mset (map position (fst (run_together ps s))) = mset [0..<length ps]"
proof -
  obtain log timers s' where st: "start ps 0 [] [] s = ((log, timers), s')"
    by (metis prod.exhaust)
  from start_positions [OF this]
  have "mset (map position log) + mset (map (\<lambda>timer. fst (snd timer)) timers) =
      mset [0..<length ps]"
    by simp
  moreover have "fst (run_together ps s) = fst (event_loop timers log s')"
    using st by (simp add: run_together_def)
  ultimately show ?thesis
    by (simp only: event_loop_positions)
qed

text \<open>
  The calls take place in the order of the list, each in the state that the calls before
  it have left, and no computation is resumed before the last call has returned: the
  state in which the event loop begins is the state that the calls leave.
\<close>

lemma start_calls_in_order:
  "snd (start ps i log timers s) = foldl (\<lambda>s p. snd (p s)) s ps"
proof (induction ps arbitrary: i log timers s)
  case Nil
  show ?case by simp
next
  case (Cons p ps)
  show ?case
  proof (cases "p s")
    case (Pair t s')
    then show ?thesis
      by (cases t) (simp_all add: Cons.IH)
  qed
qed

text \<open>
  Computations that are over when the call returns complete in the order of the list, each
  in the state the ones before it have left.
\<close>

lemma start_immediately:
  "start (map immediately ps) i log timers s =
     ((log @ map (\<lambda>j. (i + j, 0, fst ((ps ! j) (foldl (\<lambda>s p. snd (p s)) s (take j ps)))))
               [0..<length ps], timers),
      foldl (\<lambda>s p. snd (p s)) s ps)"
proof (induction ps arbitrary: i log s)
  case Nil
  show ?case by simp
next
  case (Cons p ps)
  have upt: "[0..<length (p # ps)] = 0 # map Suc [0..<length ps]"
  proof -
    have "[0..<Suc (length ps)] = 0 # [Suc 0..<Suc (length ps)]"
      by (rule upt_conv_Cons) simp
    then show ?thesis
      by (simp only: map_Suc_upt length_Cons)
  qed
  have "start (map immediately (p # ps)) i log timers s =
      start (map immediately ps) (Suc i) (log @ [(i, 0, fst (p s))]) timers (snd (p s))"
    by (cases "p s") (simp add: immediately_def)
  then show ?case
    unfolding upt by (simp add: Cons.IH comp_def)
qed

lemma run_together_immediately:
  "run_together (map immediately ps) s =
     (map (\<lambda>j. (j, 0, fst ((ps ! j) (foldl (\<lambda>s p. snd (p s)) s (take j ps))))) [0..<length ps],
      foldl (\<lambda>s p. snd (p s)) s ps)"
  by (simp add: run_together_def start_immediately)

section \<open>Properties of all\<close>

subsection \<open>The run of an element, step by step\<close>

text \<open>
  A run settles where its producer settles, fulfilled with the Result, and waits where
  its producer waits.
\<close>

lemma run_timed_step:
  "run_timed (ResultAsync_timed k) s =
     (case k s of
        (Settled r, s') \<Rightarrow> (Settled (Fulfilled (Result_of r)), s')
      | (Pending d k', s') \<Rightarrow> (Pending d (run_timed (ResultAsync_timed k')), s'))"
proof (cases "k s")
  case (Pair t s')
  show ?thesis
  proof (cases t)
    case (Settled r)
    with Pair show ?thesis
      by (cases r)
        (simp_all add: run_timed_def try_catch_timed_def await_timed_def promise_then_timed_def
          task_then_Settled immediately_def resolve_def reject_def)
  next
    case (Pending d k')
    with Pair show ?thesis
      by (simp add: run_timed_def try_catch_timed_def await_timed_def task_then_Pending
          promise_then_timed_def [of k] promise_then_timed_def [of "promise_then_timed k _ _"])
  qed
qed

text \<open>
  With nothing else going on, the run step by step is the run of the sections above.
\<close>

lemma alone_task_run:
  fixes k :: "('s, 'e, 'a) timed"
  shows "fst (k s) = t \<Longrightarrow>
    alone (run_timed (ResultAsync_timed k) :: ('s, 'x, ('e, 'a) result) timed) s =
      run (ResultAsync (alone k)) s"
proof (induction t arbitrary: k s)
  case (Settled r)
  then show ?case
    by (cases "k s"; cases r)
      (simp_all add: alone_def run_timed_step run_runPromise)
next
  case (Pending d k')
  obtain s' where step: "k s = (Pending d k', s')"
    using Pending.prems by (cases "k s") simp
  have "fst (k' s') \<in> Basic_BNFs.fsts (k' s')"
    by (cases "k' s'") simp
  from Pending.IH [of "k' s'" "fst (k' s')" k' s'] this
  have IH: "alone (run_timed (ResultAsync_timed k') :: ('s, 'x, ('e, 'a) result) timed) s' =
      run (ResultAsync (alone k')) s'"
    by simp
  have "(run_timed (ResultAsync_timed k) :: ('s, 'x, ('e, 'a) result) timed) s =
      (Pending d (run_timed (ResultAsync_timed k')), s')"
    using step by (simp add: run_timed_step)
  then have a: "alone (run_timed (ResultAsync_timed k) :: ('s, 'x, ('e, 'a) result) timed) s =
      alone (run_timed (ResultAsync_timed k')) s'"
    by (simp add: alone_def [of _ s] alone_task_Pending)
  have b: "alone k s = alone k' s'"
    using step by (simp add: alone_def [of _ s] alone_task_Pending)
  show ?case
    unfolding a IH by (simp add: run_runPromise b)
qed

lemma alone_run:
  "alone (run_timed this :: ('s, 'x, ('e, 'a) result) timed) =
     run (ResultAsync (alone (runPromise_timed this)))"
  by (cases this) (auto simp: alone_task_run)

subsection \<open>The runs of the elements together\<close>

text \<open>
  The runs of the elements go through the same steps as the producers, at the same
  instants and in the same states, and every completion of a run is a fulfilment.
\<close>

lemma enqueue_run_timer:
  "map run_timer (enqueue timer timers) = enqueue (run_timer timer) (map run_timer timers)"
  by (induction timers) (simp_all add: run_timer_def)

lemma event_loop_run:
  fixes timers :: "('s, 'e, 'a) timer list"
  shows "event_loop (map run_timer timers) (map run_completion log) s =
     (case event_loop timers log s of
        (log', s') \<Rightarrow> (map run_completion log' :: ('x, ('e, 'a) result) completion list, s'))"
proof (induction timers log s rule: event_loop.induct)
  case (1 log s)
  show ?case by simp
next
  case (2 now i k timers log s)
  show ?case
  proof (cases "k s")
    case (Pair t s')
    show ?thesis
    proof (cases t)
      case (Settled r)
      with Pair 2(1) [of "Settled r" s' r] show ?thesis
        by (simp add: run_timer_def run_timed_step run_completion_def)
    next
      case (Pending d k')
      with Pair 2(2) [of "Pending d k'" s' d k'] show ?thesis
        by (simp add: run_timer_def [of "(now, i, k)"] run_timed_step enqueue_run_timer
            run_timer_def [of "(now + d, i, k')"])
    qed
  qed
qed

lemma start_run:
  fixes eas :: "('s, 'e, 'a) resultAsync_timed list"
  shows "start (map run_timed eas) i (map run_completion log) (map run_timer timers) s =
     (case start (map runPromise_timed eas) i log timers s of
        ((log', timers'), s') \<Rightarrow>
          ((map run_completion log' :: ('x, ('e, 'a) result) completion list,
            map run_timer timers'), s'))"
proof (induction eas arbitrary: i log timers s)
  case Nil
  show ?case by simp
next
  case (Cons ea eas)
  obtain k where ea: "ea = ResultAsync_timed k" by (cases ea)
  show ?case
  proof (cases "k s")
    case (Pair t s')
    show ?thesis
    proof (cases t)
      case (Settled r)
      with Pair Cons.IH [of "Suc i" "log @ [(i, 0, r)]" timers s'] show ?thesis
        by (simp add: ea run_timed_step run_completion_def)
    next
      case (Pending d k')
      with Pair Cons.IH [of "Suc i" log "enqueue (d, i, k') timers" s'] show ?thesis
        by (simp add: ea run_timed_step enqueue_run_timer run_timer_def [of "(d, i, k')"])
    qed
  qed
qed

lemma run_together_run:
  fixes eas :: "('s, 'e, 'a) resultAsync_timed list"
  shows "run_together (map run_timed eas) s =
     (case run_together (map runPromise_timed eas) s of
        (log, s') \<Rightarrow> (map run_completion log :: ('x, ('e, 'a) result) completion list, s'))"
proof -
  obtain log timers s' where
    st: "start (map runPromise_timed eas) 0 [] [] s = ((log, timers), s')"
    by (metis prod.exhaust)
  with start_run [of eas 0 "[]" "[]" s, where 'x = 'x]
  have "start (map run_timed eas) 0 [] [] s =
      ((map run_completion log :: ('x, ('e, 'a) result) completion list,
        map run_timer timers), s')"
    by simp
  with st show ?thesis
    by (simp add: run_together_def event_loop_run)
qed

lemma insort_key_map:
  "(\<And>x. f (g x) = h x) \<Longrightarrow> insort_key f (g x) (map g xs) = map g (insort_key h x xs)"
  by (induction xs) simp_all

lemma sort_key_map:
  "(\<And>x. f (g x) = h x) \<Longrightarrow> sort_key f (map g xs) = map g (sort_key h xs)"
  by (induction xs) (simp_all add: insort_key_map)

lemma no_rejection_run: "first_rejection (map run_completion log) = None"
  by (induction log) (simp_all add: run_completion_def)

lemma fulfilment_run:
  "List.map_filter fulfilment (map run_completion log) =
     map (\<lambda>c. Result_of (snd (snd c))) log"
  by (induction log) (simp_all add: List.map_filter_simps run_completion_def)

lemma then_settles_run:
  "(\<lambda>ea :: ('s, 'e, 'a) resultAsync_timed. ResultAsync_then_timed ea
        (\<lambda>v. immediately (resolve v)) (\<lambda>x. immediately (reject x)) ::
          ('s, 'x, ('e, 'a) result) timed) = run_timed"
  by (rule ext) (simp add: ResultAsync_then_timed_def promise_then_timed_settles)

text \<open>
  No element of the list handed to \<^verbatim>\<open>Promise.all\<close> is ever rejected, since each is a run.
  So \<^verbatim>\<open>Promise.all\<close> is fulfilled, when the last element has completed, with the Results
  in input order, and \<^verbatim>\<open>Result.sequence\<close> reads them in that order.
\<close>

lemma Promise_all_run:
  fixes eas :: "('s, 'e, 'a) resultAsync_timed list"
  shows "(Promise_all (map promise_of_thenable eas) s ::
            ('x, ('e, 'a) result list) settled \<times> 's) =
     (case run_together (map runPromise_timed eas) s of
        (log, s') \<Rightarrow> (Fulfilled (outcomes log), s'))"
proof -
  have sorted: "sort_key fst (map run_completion log) =
      (map run_completion (sort_key fst log) :: ('x, ('e, 'a) result) completion list)"
    for log :: "('e, 'a) completion list"
    by (rule sort_key_map) (simp add: run_completion_def)
  show ?thesis
    unfolding then_settles_run
    by (simp add: Promise_all_def run_together_run no_rejection_run sorted fulfilment_run
        outcomes_def split: prod.split)
qed

lemma Promise_all_settled_at_run:
  fixes eas :: "('s, 'e, 'a) resultAsync_timed list"
  shows "Promise_all_settled_at
       (map promise_of_thenable eas :: ('s, 'x, ('e, 'a) result) timed list) s =
     foldr max (map instant (completions eas s)) 0"
  unfolding then_settles_run
  by (simp add: Promise_all_settled_at_def run_together_run no_rejection_run
      run_completion_def comp_def split: prod.split)

lemma run_all:
  fixes eas :: "('s, 'e, 'a) resultAsync_timed list"
  shows "(run (ResultAsync_all eas) s :: ('s, 'x, 'e, 'a list) resolution) =
     (case run_together (map runPromise_timed eas) s of
        (log, s') \<Rightarrow> (Fulfilled (Result_sequence (outcomes log)), s'))"
  by (simp add: ResultAsync_all_def ResultAsync_fromPromise_def run_runPromise
      helpers_fromPromise_def await_def promise_then_def helpers_liftResult_def
      Promise_all_run [where 'x = 'e] resolve_def reject_def
      split: prod.split settled.split result.split)

lemma fst_run_all:
  fixes eas :: "('s, 'e, 'a) resultAsync_timed list"
  shows "fst (run (ResultAsync_all eas) s :: ('s, 'x, 'e, 'a list) resolution) =
     Fulfilled (Result_sequence (outcomes (completions eas s)))"
  by (simp add: run_all split: prod.split)

lemma outcomes_in_order:
  "outcomes (map (\<lambda>j. (j, t j, r j)) [0..<n]) = map (\<lambda>j. Result_of (r j)) [0..<n]"
proof -
  have "sorted (map fst (map (\<lambda>j. (j, t j, r j)) [0..<n]))"
    by (simp add: comp_def)
  then have "sort_key fst (map (\<lambda>j. (j, t j, r j)) [0..<n]) = map (\<lambda>j. (j, t j, r j)) [0..<n]"
    by (rule sort_key_id_if_sorted)
  then show ?thesis
    by (simp add: outcomes_def comp_def)
qed

text \<open>
  The Results are in the order of the positions: there is one for each position, and the
  Result at a position is the one of the completion at that position.
\<close>

lemma outcomes_positional:
  assumes "mset (map position log) = mset [0..<n]"
  shows "length (outcomes log) = n"
    and "c \<in> set log \<Longrightarrow> outcomes log ! position c = Result_of (settlement c)"
proof -
  let ?sorted = "sort_key position log"
  have "mset (map position ?sorted) = mset [0..<n]"
    using assms by simp
  moreover have "sorted (map position ?sorted)"
    by (rule sorted_sort_key)
  ultimately have "sort [0..<n] = map position ?sorted"
    by (rule properties_for_sort)
  then have positions: "map position ?sorted = [0..<n]"
    by (simp add: sorted_sort_id)
  then have len: "length ?sorted = n"
    by (metis length_map length_upt minus_nat.diff_0)
  then show "length (outcomes log) = n"
    by (simp add: outcomes_def)
  show "outcomes log ! position c = Result_of (settlement c)" if "c \<in> set log"
  proof -
    from that have "c \<in> set ?sorted" by simp
    then obtain j where "j < length ?sorted" "?sorted ! j = c"
      unfolding in_set_conv_nth by blast
    then have j: "j < n" "?sorted ! j = c"
      using len by simp_all
    then have "position c = map position ?sorted ! j"
      using len by simp
    also have "\<dots> = j"
      using j(1) unfolding positions by simp
    finally show ?thesis
      using j len by (simp add: outcomes_def)
  qed
qed

text \<open>
  Claim C2, as the source has it. Running \<^verbatim>\<open>all\<close> starts the elements from left to
  right and lets them go on together until the last has completed. Every element
  completes, once, also when another element has failed: the positions in the log of the
  completions are the positions of the list, in some order. The result is
  \<^verbatim>\<open>Result.sequence\<close> of the Results that the runs of the elements have resolved to, put in
  input order, whatever the order in which they completed: the Failure that comes first in
  input order when there is one, whatever comes after it, and the Success of the values in
  input order when there is none. The promise of \<^verbatim>\<open>Promise.all\<close> settles at the instant
  of the last completion, not at that of the first failure. When the producers are over as
  their calls return, they are called in input order, each in the state that the calls
  before it have left. And \<^verbatim>\<open>all\<close> of the empty list resolves to the Success of the
  empty list.
\<close>

theorem all_first_failure_in_input_order:
  fixes eas :: "('s, 'e, 'a) resultAsync_timed list"
  shows
  "(run (ResultAsync_all eas) s :: ('s, 'x, 'e, 'a list) resolution) =
     (case run_together (map runPromise_timed eas) s of
        (log, s') \<Rightarrow> (Fulfilled (Result_sequence (outcomes log)), s')) \<and>
   mset (map position (completions eas s)) = mset [0..<length eas] \<and>
   length (outcomes (completions eas s)) = length eas \<and>
   (\<forall>c \<in> set (completions eas s).
      outcomes (completions eas s) ! position c = Result_of (settlement c)) \<and>
   (outcomes (completions eas s) = map Ok vs @ Err e # rest \<longrightarrow>
      fst (run (ResultAsync_all eas) s :: ('s, 'x, 'e, 'a list) resolution) =
        Fulfilled (Err e)) \<and>
   (outcomes (completions eas s) = map Ok vs \<longrightarrow>
      fst (run (ResultAsync_all eas) s :: ('s, 'x, 'e, 'a list) resolution) =
        Fulfilled (Ok vs)) \<and>
   Promise_all_settled_at
       (map promise_of_thenable eas :: ('s, 'x, ('e, 'a) result) timed list) s =
     foldr max (map instant (completions eas s)) 0 \<and>
   (run (ResultAsync_all (map (\<lambda>p. ResultAsync_timed (immediately p)) ps)) s ::
      ('s, 'x, 'e, 'a list) resolution) =
     (Fulfilled (Result_sequence
        (map (\<lambda>j. Result_of (fst ((ps ! j) (foldl (\<lambda>s p. snd (p s)) s (take j ps)))))
           [0..<length ps])),
      foldl (\<lambda>s p. snd (p s)) s ps) \<and>
   (run (ResultAsync_all ([] :: ('s, 'e, 'a) resultAsync_timed list)) s ::
      ('s, 'x, 'e, 'a list) resolution) = (Fulfilled (Ok []), s)"
proof (intro conjI impI ballI)
  have positions: "mset (map position (completions eas s)) = mset [0..<length eas]"
    using run_together_positions [of "map runPromise_timed eas" s] by simp
  show "(run (ResultAsync_all eas) s :: ('s, 'x, 'e, 'a list) resolution) =
     (case run_together (map runPromise_timed eas) s of
        (log, s') \<Rightarrow> (Fulfilled (Result_sequence (outcomes log)), s'))"
    by (rule run_all)
  show "mset (map position (completions eas s)) = mset [0..<length eas]"
    by (rule positions)
  show "length (outcomes (completions eas s)) = length eas"
    using positions by (rule outcomes_positional)
  show "outcomes (completions eas s) ! position c = Result_of (settlement c)"
    if "c \<in> set (completions eas s)" for c
    using positions that by (rule outcomes_positional)
  show "fst (run (ResultAsync_all eas) s :: ('s, 'x, 'e, 'a list) resolution) =
      Fulfilled (Err e)"
    if "outcomes (completions eas s) = map Ok vs @ Err e # rest"
    unfolding fst_run_all that by (simp only: Result_sequence_first_Err)
  show "fst (run (ResultAsync_all eas) s :: ('s, 'x, 'e, 'a list) resolution) =
      Fulfilled (Ok vs)"
    if "outcomes (completions eas s) = map Ok vs"
    unfolding fst_run_all that by (simp only: Result_sequence_all_Ok)
  show "Promise_all_settled_at
       (map promise_of_thenable eas :: ('s, 'x, ('e, 'a) result) timed list) s =
     foldr max (map instant (completions eas s)) 0"
    by (rule Promise_all_settled_at_run)
  show "(run (ResultAsync_all (map (\<lambda>p. ResultAsync_timed (immediately p)) ps)) s ::
      ('s, 'x, 'e, 'a list) resolution) =
     (Fulfilled (Result_sequence
        (map (\<lambda>j. Result_of (fst ((ps ! j) (foldl (\<lambda>s p. snd (p s)) s (take j ps)))))
           [0..<length ps])),
      foldl (\<lambda>s p. snd (p s)) s ps)"
    by (simp add: run_all comp_def run_together_immediately outcomes_in_order)
  show "(run (ResultAsync_all ([] :: ('s, 'e, 'a) resultAsync_timed list)) s ::
      ('s, 'x, 'e, 'a list) resolution) = (Fulfilled (Ok []), s)"
    by (simp add: run_all run_together_def outcomes_def Result_sequence_def)
qed

text \<open>
  The two lists of the test of \<^verbatim>\<open>all\<close>. In the first, the first element is rejected
  with \<^verbatim>\<open>'A'\<close> when a timer of 200 has run out, and the second calls the counted
  function and returns 2: the second completes first, the result is the Failure of
  \<^verbatim>\<open>'A'\<close>, and the counted function has been called once. In the second list both
  elements succeed.
\<close>

theorem all_first_failure_in_input_order_witness:
  "outcomes (completions
      [ResultAsync_timed (after 200 (reject ''A'')),
       ResultAsync_timed (immediately (jest_fn (resolve 2))) ::
         (nat \<times> unit, string, nat) resultAsync_timed]
      (0, ())) = map Ok [] @ Err ''A'' # [Ok 2] \<and>
   (0, 200, Rejected ''A'') \<in> set (completions
      [ResultAsync_timed (after 200 (reject ''A'')),
       ResultAsync_timed (immediately (jest_fn (resolve 2))) ::
         (nat \<times> unit, string, nat) resultAsync_timed]
      (0, ())) \<and>
   outcomes (completions
      [ResultAsync_timed (after 200 (reject ''A'')),
       ResultAsync_timed (immediately (jest_fn (resolve 2))) ::
         (nat \<times> unit, string, nat) resultAsync_timed]
      (0, ())) ! 0 = Err ''A'' \<and>
   (run (ResultAsync_all
          [ResultAsync_timed (after 200 (reject ''A'')),
           ResultAsync_timed (immediately (jest_fn (resolve 2)))])
      (0, ()) :: (nat \<times> unit, string, string, nat list) resolution) =
     (Fulfilled (Err ''A''), (1, ())) \<and>
   outcomes (completions
      [ResultAsync_timed (immediately (helpers_liftResult (Ok 1))),
       ResultAsync_timed (immediately (jest_fn (resolve 2))) ::
         (nat \<times> unit, string, nat) resultAsync_timed]
      (0, ())) = map Ok [1, 2] \<and>
   (run (ResultAsync_all
          [ResultAsync_timed (immediately (helpers_liftResult (Ok 1))),
           ResultAsync_timed (immediately (jest_fn (resolve 2)))])
      (0, ()) :: (nat \<times> unit, string, string, nat list) resolution) =
     (Fulfilled (Ok [1, 2]), (1, ()))"
proof -
  let ?failing = "[ResultAsync_timed (after 200 (reject ''A'')),
    ResultAsync_timed (immediately (jest_fn (resolve 2)))] ::
      (nat \<times> unit, string, nat) resultAsync_timed list"
  let ?passing = "[ResultAsync_timed (immediately (helpers_liftResult (Ok 1))),
    ResultAsync_timed (immediately (jest_fn (resolve 2)))] ::
      (nat \<times> unit, string, nat) resultAsync_timed list"
  let ?s = "(0::nat, ())"
  have f: "run_together (map runPromise_timed ?failing) ?s =
      ([(1, 0, Fulfilled 2), (0, 200, Rejected ''A'')], (1, ()))"
    by (simp add: run_together_def after_def immediately_def resolve_def reject_def)
  have p: "run_together (map runPromise_timed ?passing) ?s =
      ([(0, 0, Fulfilled 1), (1, 0, Fulfilled 2)], (1, ()))"
    by (simp add: run_together_def immediately_def helpers_liftResult_def resolve_def)
  have fo: "outcomes (completions ?failing ?s) =
      map Ok [] @ Err ''A'' # [Ok 2]"
    unfolding f by (simp add: outcomes_def)
  have po: "outcomes (completions ?passing ?s) = map Ok [1, 2]"
    unfolding p by (simp add: outcomes_def)
  have fm: "(0, 200, Rejected ''A'') \<in> set (completions ?failing ?s)"
    unfolding f by simp
  note failing = all_first_failure_in_input_order
    [where 'x = string and eas = ?failing and s = ?s and vs = "[]" and e = "''A''"
       and rest = "[Ok 2]"]
  note passing = all_first_failure_in_input_order
    [where 'x = string and eas = ?passing and s = ?s and vs = "[1, 2]"]
  from failing [THEN conjunct2, THEN conjunct2, THEN conjunct2, THEN conjunct2,
      THEN conjunct1, THEN mp, OF fo]
  have "fst (run (ResultAsync_all ?failing) ?s ::
      (nat \<times> unit, string, string, nat list) resolution) = Fulfilled (Err ''A'')" .
  moreover from failing [THEN conjunct1]
  have "snd (run (ResultAsync_all ?failing) ?s ::
      (nat \<times> unit, string, string, nat list) resolution) = (1, ())"
    unfolding f by simp
  moreover
  from passing [THEN conjunct2, THEN conjunct2, THEN conjunct2, THEN conjunct2,
      THEN conjunct2, THEN conjunct1, THEN mp, OF po]
  have "fst (run (ResultAsync_all ?passing) ?s ::
      (nat \<times> unit, string, string, nat list) resolution) = Fulfilled (Ok [1, 2])" .
  moreover from passing [THEN conjunct1]
  have "snd (run (ResultAsync_all ?passing) ?s ::
      (nat \<times> unit, string, string, nat list) resolution) = (1, ())"
    unfolding p by simp
  moreover
  from failing [THEN conjunct2, THEN conjunct2, THEN conjunct2, THEN conjunct1, THEN bspec, OF fm]
  have "outcomes (completions ?failing ?s) ! 0 = Err ''A''"
    by simp
  ultimately show ?thesis
    using fo po fm by (simp add: prod_eq_iff)
qed

text \<open>
  The claim as it is written fails where the first element to fail in input order is not
  the first to complete. Of two elements, the first rejected with \<^verbatim>\<open>'A'\<close> when a timer
  of 200 has run out and the second rejected with \<^verbatim>\<open>'B'\<close> as it is called, the second
  completes first, so the first Failure observed is that of \<^verbatim>\<open>'B'\<close>; and \<^verbatim>\<open>all\<close>
  resolves to the Failure of \<^verbatim>\<open>'A'\<close>.
\<close>

theorem all_completion_order_counterexample:
  "run_together
     (map runPromise_timed
        [ResultAsync_timed (after 200 (reject ''A'')),
         ResultAsync_timed (immediately (reject ''B'')) :: (unit, string, nat) resultAsync_timed])
     () = ([(1, 0, Rejected ''B''), (0, 200, Rejected ''A'')], ()) \<and>
   (first_failure_observed [(1, 0, Rejected ''B''), (0, 200, Rejected ''A'')] ::
      (string, nat list) result) = Err ''B'' \<and>
   (run (ResultAsync_all
          [ResultAsync_timed (after 200 (reject ''A'')),
           ResultAsync_timed (immediately (reject ''B''))]) () ::
      (unit, string, string, nat list) resolution) = (Fulfilled (Err ''A''), ())"
proof -
  have log: "run_together
     (map runPromise_timed
        [ResultAsync_timed (after 200 (reject ''A'')),
         ResultAsync_timed (immediately (reject ''B'')) :: (unit, string, nat) resultAsync_timed])
     () = ([(1, 0, Rejected ''B''), (0, 200, Rejected ''A'')], ())"
    by (simp add: run_together_def after_def immediately_def reject_def)
  then show ?thesis
    by (simp add: first_failure_observed_def run_all outcomes_def Result_sequence_def)
qed

section \<open>The scenarios of the test suite\<close>

text \<open>
  The model gives the Results that the tests of \<^verbatim>\<open>ResultAsync.test.ts\<close> and
  \<^verbatim>\<open>Result.test.ts\<close> expect. In \<^verbatim>\<open>throwE\<close>, a producer awaits a lifted \<^verbatim>\<open>Ok\<close>, calls
  \<^verbatim>\<open>throwE('Test')\<close> and would return the value. In \<^verbatim>\<open>try/catch\<close>, a producer catches
  the rejection of \<^verbatim>\<open>fromPromise\<close> and calls \<^verbatim>\<open>throwE\<close> in the handler.
\<close>

lemma test_throwE:
  "run (ResultAsync (await (helpers_liftResult (Ok (5::nat)))
          (\<lambda>val. await (helpers_throwE ''Test'') (\<lambda>never. resolve val)))) s =
     (Fulfilled (Err ''Test''), s)"
  by (simp add: run_runPromise await_def promise_then_def helpers_liftResult_def
      helpers_throwE_def resolve_def reject_def)

lemma test_try_catch:
  "run (ResultAsync (try_catch
          (await (helpers_fromPromise (reject ''shouldnt show'')) (\<lambda>v. resolve ()))
          (\<lambda>caught. helpers_throwE ''should show''))) s =
     (Fulfilled (Err ''should show''), s)"
  by (simp add: run_runPromise try_catch_def await_def promise_then_def helpers_fromPromise_def
      helpers_throwE_def resolve_def reject_def)

lemma test_run:
  "run (ResultAsync (helpers_fromPromise (resolve (Err ''Error'')))) s =
     (Fulfilled (Err ''Error''), s) \<and>
   run (ResultAsync (helpers_fromPromise (reject ''Some error''))) s =
     (Fulfilled (Err ''Some error''), s) \<and>
   run (ResultAsync (helpers_fromPromise (resolve (Ok (5::nat))))) s = (Fulfilled (Ok 5), s)"
  by (simp add: run_runPromise helpers_fromPromise_def helpers_liftResult_def promise_then_def
      resolve_def reject_def)

lemma test_swap:
  "run (ResultAsync_swap (ResultAsync (resolve (Plain (JNum 5))))) s =
     (Fulfilled (Err (Plain (JNum 5))), s) \<and>
   run (ResultAsync_swap (ResultAsync (reject (Plain (JStr ''fail''))))) s =
     (Fulfilled (Ok (Plain (JStr ''fail''))), s)"
  by (simp add: run_runPromise ResultAsync_swap_def await_def promise_then_def
      helpers_throwE_def helpers_liftResult_val_def Promise_resolve_def resolve_def reject_def)

lemma test_finally:
  "snd (run (ResultAsync_finally (ResultAsync_liftResult (Err ''Error'')) (jest_fn (resolve ())))
          (0, s)) = (1, s) \<and>
   snd (run (ResultAsync_finally (ResultAsync_liftResult (Ok (5::nat))) (jest_fn (resolve ())))
          (0, s)) = (1, s)"
  by (simp add: run_runPromise ResultAsync_finally_def ResultAsync_liftResult_def
      helpers_fromPromise_def promise_finally_def promise_then_def helpers_liftResult_def
      resolve_def reject_def)

lemma test_equals:
  "Result_equals (Err (JStr ''Error'')) (Err (JStr ''Error'')) \<and>
   \<not> Result_equals (Err (JStr ''Error'')) (Err (JStr ''Error!'')) \<and>
   \<not> Result_equals (Err (JStr ''Error'')) (Ok (JStr ''Error'')) \<and>
   Result_equals (Ok (JNum 5)) (Ok (JNum 5)) \<and>
   \<not> Result_equals (Ok (JNum 5)) (Ok (JNum 6)) \<and>
   \<not> Result_equals (Ok (JNum 5)) (Err (JStr ''Error''))"
  by simp

lemma test_alt:
  "Result_alt (Err ''Error'') (Err ''Error!'') = (Err ''Error!'' :: (string, nat) result) \<and>
   Result_alt (Err ''Error'') (Ok (5::nat)) = Ok 5 \<and>
   Result_alt (Ok (5::nat)) (Err ''Error'') = Ok 5 \<and>
   Result_alt (Ok (5::nat)) (Ok 6) = (Ok 5 :: (string, nat) result)"
  by simp

lemma test_all:
  "(run (ResultAsync_all []) s :: ('s, 'x, 'e, 'a list) resolution) = (Fulfilled (Ok []), s) \<and>
   (run (ResultAsync_all
          [ResultAsync_timed (after 200 (reject ''A'')),
           ResultAsync_timed (immediately (jest_fn (resolve (2::nat))))])
      (0, s) :: (nat \<times> 's, 'x, string, nat list) resolution) = (Fulfilled (Err ''A''), (1, s)) \<and>
   (run (ResultAsync_all
          [ResultAsync_timed (immediately (helpers_liftResult (Ok (1::nat)))),
           ResultAsync_timed (immediately (jest_fn (resolve 2)))])
      (0, s) :: (nat \<times> 's, 'x, string, nat list) resolution) = (Fulfilled (Ok [1, 2]), (1, s))"
  by (simp add: run_all run_together_def after_def immediately_def helpers_liftResult_def
      resolve_def reject_def outcomes_def Result_sequence_def)

text \<open>
  Two producers that write to a journal: each writes its position as it is called, waits,
  writes again when it goes on, and returns. The first waits longer than the second. The
  calls take place in input order, the rest in the order of the timers, and the values
  come in input order.
\<close>

lemma all_interleaving:
  "(run (ResultAsync_all
          [ResultAsync_timed
             (\<lambda>journal. (Pending 200 (immediately (\<lambda>journal. (Fulfilled ''first'', journal @ [10]))),
                journal @ [0])),
           ResultAsync_timed
             (\<lambda>journal. (Pending 100 (immediately (\<lambda>journal. (Fulfilled ''second'', journal @ [11]))),
                journal @ [1]))])
      [] :: (nat list, 'x, 'e, string list) resolution) =
     (Fulfilled (Ok [''first'', ''second'']), [0, 1, 11, 10])"
  by (simp add: run_all run_together_def immediately_def outcomes_def Result_sequence_def)

text \<open>
  \<^verbatim>\<open>Promise.all\<close> over promises that are rejected settles with the first rejection, at
  once; over the runs of the same producers, which are not rejected, it settles when the
  last has completed.
\<close>

lemma Promise_all_rejects_early:
  "Promise_all [after 200 (reject ''A''), immediately (reject ''B'')] () =
     (Rejected ''B'' :: (string, nat list) settled, ()) \<and>
   Promise_all_settled_at
     [after 200 (reject ''A''), immediately (reject ''B'') :: (unit, string, nat) timed] () = 0 \<and>
   Promise_all_settled_at
     [run_timed (ResultAsync_timed (after 200 (reject ''A''))),
      run_timed (ResultAsync_timed (immediately (reject ''B''))) ::
        (unit, string, (string, nat) result) timed] () = 200"
  by (simp add: Promise_all_def Promise_all_settled_at_def run_together_def run_timed_step
      after_def immediately_def reject_def)

end
